theory Spec2Isabelle
  imports Complex_Main "HOL-Library.Word" "HOL-Library.Sublist"
begin

section \<open>JavaScript strings\<close>

text \<open>
  A JavaScript string is a sequence of UTF-16 code units. \<open>lit\<close> turns an ASCII literal
  of the source into its code units; the two pictographs of the reply texts are written
  as code units directly.
\<close>

type_synonym jsstring = "16 word list"

definition unit_of :: "char \<Rightarrow> 16 word" where
  "unit_of c = of_nat (of_char c)"

definition lit :: "string \<Rightarrow> jsstring" where
  "lit s = map unit_of s"

text \<open>
  The code units \<open>String.prototype.trim\<close> removes: ECMAScript's WhiteSpace and
  LineTerminator (tab, line feed, vertical tab, form feed, carriage return, space,
  no-break space, U+1680, U+2000 to U+200A, U+2028, U+2029, U+202F, U+205F, U+3000, U+FEFF).
\<close>

definition is_white_space :: "16 word \<Rightarrow> bool" where
  "is_white_space c =
     (c \<in> set [0x9, 0xA, 0xB, 0xC, 0xD, 0x20, 0xA0, 0x1680, 0x2028, 0x2029, 0x202F,
                0x205F, 0x3000, 0xFEFF]
      \<or> (0x2000 \<le> c \<and> c \<le> 0x200A))"

definition trim :: "jsstring \<Rightarrow> jsstring" where
  "trim s = rev (dropWhile is_white_space (rev (dropWhile is_white_space s)))"

text \<open>
  \<open>String.prototype.toLowerCase\<close> applies the Unicode case mapping of the engine (U+0130,
  for one, becomes U+0069 U+0307). That mapping is not part of the repository, so the
  handler below takes the function from its environment. \<open>ascii_lower\<close> is what the
  function does to a string of ASCII code units, A to Z becoming a to z; it stands for
  the engine only in the concrete runs further down, whose hints are ASCII.
\<close>

definition ascii_lower :: "jsstring \<Rightarrow> jsstring" where
  "ascii_lower s = map (\<lambda>c. if 0x41 \<le> c \<and> c \<le> 0x5A then c + 0x20 else c) s"

text \<open>\<open>s.includes(sub)\<close>: \<open>sub\<close> occurs in \<open>s\<close> as a contiguous run.\<close>

fun str_includes :: "jsstring \<Rightarrow> jsstring \<Rightarrow> bool" where
  "str_includes [] sub = (sub = [])"
| "str_includes (c # cs) sub = (prefix sub (c # cs) \<or> str_includes cs sub)"

text \<open>\<open>s.replace(pat, rep)\<close> with a string pattern: the first occurrence only.\<close>

fun str_replace :: "jsstring \<Rightarrow> jsstring \<Rightarrow> jsstring \<Rightarrow> jsstring" where
  "str_replace [] pat rep = (if pat = [] then rep else [])"
| "str_replace (c # cs) pat rep =
     (if prefix pat (c # cs) then rep @ drop (length pat) (c # cs)
      else c # str_replace cs pat rep)"

section \<open>JavaScript values and failures\<close>

text \<open>
  The values a parsed JSON body holds, and \<open>undefined\<close> for a property that is not
  there. An object is its list of own properties. Of a number the handler observes only
  whether it is zero, so numbers are kept as integers.
\<close>

datatype jsval =
    JUndefined
  | JNull
  | JBool bool
  | JNum int
  | JStr jsstring
  | JArr "jsval list"
  | JObj "(jsstring \<times> jsval) list"

text \<open>
  What can be thrown: the engine's TypeError for reading a property of \<open>undefined\<close> or
  \<open>null\<close>, its TypeError for calling a property that is not a function, and an Error
  raised by a collaborator (the provider SDK, \<open>fetch\<close>, \<open>response.json\<close>) with its
  message.
\<close>

datatype js_error =
    CannotRead jsval jsstring
  | NotAFunction jsstring
  | Thrown jsstring

definition andThen :: "js_error + 'a \<Rightarrow> ('a \<Rightarrow> js_error + 'b) \<Rightarrow> js_error + 'b" where
  "andThen r f = (case r of Inl e \<Rightarrow> Inl e | Inr v \<Rightarrow> f v)"

fun truthy :: "jsval \<Rightarrow> bool" where
  "truthy JUndefined = False"
| "truthy JNull = False"
| "truthy (JBool b) = b"
| "truthy (JNum n) = (n \<noteq> 0)"
| "truthy (JStr s) = (s \<noteq> [])"
| "truthy (JArr xs) = True"
| "truthy (JObj ps) = True"

fun nullish :: "jsval \<Rightarrow> bool" where
  "nullish JUndefined = True"
| "nullish JNull = True"
| "nullish v = False"

text \<open>
  \<open>v.p\<close> for a property name that no prototype defines (the handler reads role,
  content, parts, text, choices and message): an own property of an object, \<open>undefined\<close>
  on every other value, a TypeError on \<open>undefined\<close> and \<open>null\<close>.
\<close>

fun read_prop :: "jsval \<Rightarrow> jsstring \<Rightarrow> js_error + jsval" where
  "read_prop JUndefined p = Inl (CannotRead JUndefined p)"
| "read_prop JNull p = Inl (CannotRead JNull p)"
| "read_prop (JObj ps) p = Inr (case map_of ps p of None \<Rightarrow> JUndefined | Some v \<Rightarrow> v)"
| "read_prop v p = Inr JUndefined"

text \<open>\<open>v[0]\<close>: the first element of an array, the first code unit of a string.\<close>

fun read_first :: "jsval \<Rightarrow> js_error + jsval" where
  "read_first JUndefined = Inl (CannotRead JUndefined (lit ''0''))"
| "read_first JNull = Inl (CannotRead JNull (lit ''0''))"
| "read_first (JArr xs) = Inr (case xs of [] \<Rightarrow> JUndefined | x # _ \<Rightarrow> x)"
| "read_first (JStr s) = Inr (case s of [] \<Rightarrow> JUndefined | c # _ \<Rightarrow> JStr [c])"
| "read_first (JObj ps) = Inr (case map_of ps (lit ''0'') of None \<Rightarrow> JUndefined | Some v \<Rightarrow> v)"
| "read_first v = Inr JUndefined"

text \<open>One link \<open>v?.\<close> of an optional chain: \<open>undefined\<close> when \<open>v\<close> is nullish.\<close>

definition opt_chain :: "jsval \<Rightarrow> (jsval \<Rightarrow> js_error + jsval) \<Rightarrow> js_error + jsval" where
  "opt_chain v f = (if nullish v then Inr JUndefined else f v)"

section \<open>sanitizeHistory\<close>

text \<open>
  The callback of \<open>history.map\<close>:
  \<^verbatim>\<open>msg => ({ role: msg.role === "user" ? "user" : "model", parts: [{ text: msg.content }] })\<close>
\<close>

definition format_msg :: "jsval \<Rightarrow> js_error + jsval" where
  "format_msg msg =
     andThen (read_prop msg (lit ''role'')) (\<lambda>r.
     andThen (read_prop msg (lit ''content'')) (\<lambda>c.
       Inr (JObj [(lit ''role'', JStr (if r = JStr (lit ''user'') then lit ''user'' else lit ''model'')),
                  (lit ''parts'', JArr [JObj [(lit ''text'', c)]])])))"

text \<open>\<open>Array.prototype.map\<close> with a callback that may throw: the first throw ends it.\<close>

fun map_all :: "('a \<Rightarrow> js_error + 'b) \<Rightarrow> 'a list \<Rightarrow> js_error + 'b list" where
  "map_all f [] = Inr []"
| "map_all f (x # xs) =
     andThen (f x) (\<lambda>y. andThen (map_all f xs) (\<lambda>ys. Inr (y # ys)))"

text \<open>\<open>m.parts[0].text\<close>\<close>

definition text_of :: "jsval \<Rightarrow> js_error + jsval" where
  "text_of m =
     andThen (read_prop m (lit ''parts'')) (\<lambda>ps.
     andThen (read_first ps) (\<lambda>p. read_prop p (lit ''text'')))"

text \<open>
  The callback of \<open>formatted.filter\<close>:
  \<^verbatim>\<open>m => m.parts[0].text && m.parts[0].text.trim() !== ""\<close>
  A truthy text that is not a string has no \<open>trim\<close> method, and the call throws.
\<close>

definition keeps :: "jsval \<Rightarrow> js_error + bool" where
  "keeps m =
     andThen (text_of m) (\<lambda>t.
       if \<not> truthy t then Inr False
       else (case t of JStr s \<Rightarrow> Inr (trim s \<noteq> [])
             | _ \<Rightarrow> Inl (NotAFunction (lit ''trim''))))"

fun filter_all :: "('a \<Rightarrow> js_error + bool) \<Rightarrow> 'a list \<Rightarrow> js_error + 'a list" where
  "filter_all f [] = Inr []"
| "filter_all f (x # xs) =
     andThen (f x) (\<lambda>b. andThen (filter_all f xs) (\<lambda>ys. Inr (if b then x # ys else ys)))"

text \<open>
  \<^verbatim>\<open>while (formatted.length > 0 && formatted[0].role !== "user") { formatted.shift(); }\<close>
\<close>

fun shift_leading :: "jsval list \<Rightarrow> js_error + jsval list" where
  "shift_leading [] = Inr []"
| "shift_leading (m # ms) =
     andThen (read_prop m (lit ''role'')) (\<lambda>r.
       if r \<noteq> JStr (lit ''user'') then shift_leading ms else Inr (m # ms))"

definition sanitizeHistory :: "jsval \<Rightarrow> js_error + jsval list" where
  "sanitizeHistory history_arg =
     (case history_arg of
        JArr xs \<Rightarrow>
          if length xs = 0 then Inr []
          else andThen (map_all format_msg xs) (\<lambda>formatted.
               andThen (filter_all keeps formatted) shift_leading)
      | _ \<Rightarrow> Inr [])"

section \<open>The chat handler\<close>

text \<open>
  The repository holds four revisions of \<open>backend/server.js\<close>: three in
  \<open>src/unnamed/part_000\<close> (lines 1 to 167, 168 to 332 and 333 to 495) and one after
  the browser script in \<open>src/public/client.js\<close> (from line 204). \<open>sanitizeHistory\<close>,
  the secondary branch and the catch handler are the same in all four; the model names,
  the choice between the two primary models, the search tool and the label differ.
\<close>

datatype revision = RevA | RevB | RevC | RevD

fun MODEL_FLASH :: "revision \<Rightarrow> jsstring" where
  "MODEL_FLASH RevC = lit ''gemini-2.0-flash-exp''"
| "MODEL_FLASH rv = lit ''gemini-2.5-flash''"

fun MODEL_PRO :: "revision \<Rightarrow> jsstring" where
  "MODEL_PRO RevC = lit ''gemini-2.0-pro-exp-02-05''"
| "MODEL_PRO RevD = lit ''gemini-3.0-pro''"
| "MODEL_PRO rv = lit ''gemini-2.5-pro''"

definition MODEL_GROQ :: jsstring where
  "MODEL_GROQ = lit ''llama-3.1-8b-instant''"

text \<open>
  The three fields the handler takes from the body of the request; an absent field is
  \<open>undefined\<close>. The body itself is taken to be an object, as the JSON body parser
  leaves it.
\<close>

record chat_request =
  message :: jsval
  history :: jsval
  model :: jsval

text \<open>The \<open>output\<close> object of the JSON reply.\<close>

record chat_reply =
  role :: jsstring
  content :: jsval
  via :: "jsstring option"

text \<open>
  What the handler hands to the primary provider's SDK (\<open>getGenerativeModel\<close>,
  \<open>startChat\<close>, \<open>sendMessage\<close>) and to \<open>fetch\<close> for the secondary provider.
\<close>

record gemini_call =
  g_model :: jsstring
  g_systemInstruction :: jsstring
  g_tools :: "jsstring list"
  g_history :: "jsval list"
  g_temperature :: rat
  g_maxOutputTokens :: nat
  g_message :: jsval

record groq_call =
  q_url :: jsstring
  q_method :: jsstring
  q_content_type :: jsstring
  q_authorization :: jsstring
  q_model :: jsstring
  q_messages :: "jsval list"
  q_temperature :: rat
  q_max_tokens :: nat

datatype outbound = GeminiChat gemini_call | GroqFetch groq_call

text \<open>
  Everything outside the handler: the two environment variables, the persona text of the
  revision (a long template literal, on which nothing below depends), the engine's
  \<open>toLowerCase\<close> and the wording it gives its TypeErrors, and the two providers.
  \<open>sendMessage\<close> answers with the reply text or fails; \<open>fetch\<close> fails, or resolves to a
  response whose \<open>json()\<close> fails or gives the parsed body.
\<close>

record env =
  GEMINI_KEY_var :: "jsstring option"
  GROQ_KEY_var :: "jsstring option"
  SYSTEM_INSTRUCTION_INDRESH :: jsstring
  toLowerCase :: "jsstring \<Rightarrow> jsstring"
  wording :: "js_error \<Rightarrow> jsstring"
  sendMessage :: "gemini_call \<Rightarrow> js_error + jsstring"
  fetch :: "groq_call \<Rightarrow> js_error + (js_error + jsval)"

text \<open>\<^verbatim>\<open>(process.env.GEMINI_KEY || "").trim()\<close>; \<open>genAI\<close> is null exactly when it is empty.\<close>

definition GEMINI_KEY :: "env \<Rightarrow> jsstring" where
  "GEMINI_KEY e = trim (case GEMINI_KEY_var e of None \<Rightarrow> [] | Some s \<Rightarrow> s)"

definition GROQ_KEY :: "env \<Rightarrow> jsstring" where
  "GROQ_KEY e = trim (case GROQ_KEY_var e of None \<Rightarrow> [] | Some s \<Rightarrow> s)"

definition error_message :: "env \<Rightarrow> js_error \<Rightarrow> jsstring" where
  "error_message e err = (case err of Thrown m \<Rightarrow> m | _ \<Rightarrow> wording e err)"

text \<open>\<^verbatim>\<open>(model || "gemini").toLowerCase()\<close>\<close>

definition requestedType :: "env \<Rightarrow> jsval \<Rightarrow> js_error + jsstring" where
  "requestedType e m =
     (case (if truthy m then m else JStr (lit ''gemini'')) of
        JStr s \<Rightarrow> Inr (toLowerCase e s)
      | _ \<Rightarrow> Inl (NotAFunction (lit ''toLowerCase'')))"

definition gemini_mode :: "jsstring \<Rightarrow> bool" where
  "gemini_mode rt =
     (str_includes rt (lit ''gemini'') \<or> str_includes rt (lit ''flash'')
      \<or> str_includes rt (lit ''pro''))"

text \<open>
  Revisions A, B and D: \<^verbatim>\<open>requestedType.includes("flash") ? MODEL_FLASH : MODEL_PRO\<close>.
  Revision C: \<^verbatim>\<open>requestedType.includes("pro") ? MODEL_PRO : MODEL_FLASH\<close>.
\<close>

fun targetModelName :: "revision \<Rightarrow> jsstring \<Rightarrow> jsstring" where
  "targetModelName RevC rt =
     (if str_includes rt (lit ''pro'') then MODEL_PRO RevC else MODEL_FLASH RevC)"
| "targetModelName rv rt =
     (if str_includes rt (lit ''flash'') then MODEL_FLASH rv else MODEL_PRO rv)"

fun displayModelName :: "revision \<Rightarrow> jsstring \<Rightarrow> jsstring" where
  "displayModelName RevB target = str_replace target (lit ''gemini-'') []"
| "displayModelName rv target = target"

fun tools_of :: "revision \<Rightarrow> jsstring list" where
  "tools_of RevD = []"
| "tools_of rv = [lit ''googleSearch'']"

definition key_missing_reply :: chat_reply where
  "key_missing_reply =
     \<lparr>role = lit ''assistant'', content = JStr ([0x274C] @ lit '' Error: AI Key Missing''),
      via = None\<rparr>"

definition error_reply :: "jsstring \<Rightarrow> chat_reply" where
  "error_reply msg =
     \<lparr>role = lit ''assistant'',
      content = JStr ([0x26A0, 0xFE0F] @ lit '' Error: '' @ msg @ lit ''.''),
      via = None\<rparr>"

definition gemini_request :: "revision \<Rightarrow> env \<Rightarrow> jsstring \<Rightarrow> jsval list \<Rightarrow> jsval \<Rightarrow> gemini_call" where
  "gemini_request rv e rt geminiHistory msg =
     \<lparr>g_model = targetModelName rv rt,
      g_systemInstruction = SYSTEM_INSTRUCTION_INDRESH e,
      g_tools = tools_of rv,
      g_history = geminiHistory,
      g_temperature = 7 / 10,
      g_maxOutputTokens = 8192,
      g_message = msg\<rparr>"

definition gemini_branch ::
  "revision \<Rightarrow> env \<Rightarrow> jsstring \<Rightarrow> jsval list \<Rightarrow> jsval \<Rightarrow> (js_error + chat_reply) \<times> outbound list" where
  "gemini_branch rv e rt geminiHistory msg =
     (if GEMINI_KEY e = [] then (Inr key_missing_reply, [])
      else
        let call = gemini_request rv e rt geminiHistory msg in
        (case sendMessage e call of
           Inl err \<Rightarrow> (Inl err, [GeminiChat call])
         | Inr txt \<Rightarrow>
             (Inr \<lparr>role = lit ''assistant'', content = JStr txt,
                   via = Some (lit ''Indresh ('' @ displayModelName rv (targetModelName rv rt)
                               @ lit '')'')\<rparr>,
              [GeminiChat call])))"

text \<open>
  \<open>history.map\<close> of the secondary branch: \<open>history\<close> is the raw field of the body. On
  \<open>undefined\<close> and \<open>null\<close> the read of \<open>map\<close> throws; on any other value that is not an
  array \<open>map\<close> is not a function.
\<close>

definition groq_turn :: "jsval \<Rightarrow> js_error + jsval" where
  "groq_turn msg =
     andThen (read_prop msg (lit ''role'')) (\<lambda>r.
     andThen (read_prop msg (lit ''content'')) (\<lambda>c.
       Inr (JObj [(lit ''role'', JStr (if r = JStr (lit ''user'') then lit ''user'' else lit ''assistant'')),
                  (lit ''content'', c)])))"

definition history_map :: "jsval \<Rightarrow> js_error + jsval list" where
  "history_map h =
     (case h of
        JArr xs \<Rightarrow> map_all groq_turn xs
      | JUndefined \<Rightarrow> Inl (CannotRead JUndefined (lit ''map''))
      | JNull \<Rightarrow> Inl (CannotRead JNull (lit ''map''))
      | _ \<Rightarrow> Inl (NotAFunction (lit ''map'')))"

definition groqMessages :: "env \<Rightarrow> chat_request \<Rightarrow> js_error + jsval list" where
  "groqMessages e req =
     andThen (history_map (history req)) (\<lambda>turns.
       Inr ([JObj [(lit ''role'', JStr (lit ''system'')),
                   (lit ''content'', JStr (SYSTEM_INSTRUCTION_INDRESH e))]]
            @ turns
            @ [JObj [(lit ''role'', JStr (lit ''user'')), (lit ''content'', message req)]]))"

definition groq_request :: "env \<Rightarrow> jsval list \<Rightarrow> groq_call" where
  "groq_request e msgs =
     \<lparr>q_url = lit ''https://api.groq.com/openai/v1/chat/completions'',
      q_method = lit ''POST'',
      q_content_type = lit ''application/json'',
      q_authorization = lit ''Bearer '' @ GROQ_KEY e,
      q_model = MODEL_GROQ,
      q_messages = msgs,
      q_temperature = 7 / 10,
      q_max_tokens = 4096\<rparr>"

text \<open>\<^verbatim>\<open>data.choices?.[0]?.message?.content\<close>\<close>

definition first_choice_content :: "jsval \<Rightarrow> js_error + jsval" where
  "first_choice_content data =
     andThen (read_prop data (lit ''choices'')) (\<lambda>choices.
     andThen (opt_chain choices read_first) (\<lambda>choice.
     andThen (opt_chain choice (\<lambda>c. read_prop c (lit ''message''))) (\<lambda>m.
       opt_chain m (\<lambda>x. read_prop x (lit ''content'')))))"

definition groq_branch :: "env \<Rightarrow> chat_request \<Rightarrow> (js_error + chat_reply) \<times> outbound list" where
  "groq_branch e req =
     (if GROQ_KEY e = [] then (Inr key_missing_reply, [])
      else
        (case groqMessages e req of
           Inl err \<Rightarrow> (Inl err, [])
         | Inr msgs \<Rightarrow>
             let call = groq_request e msgs in
             (case fetch e call of
                Inl err \<Rightarrow> (Inl err, [GroqFetch call])
              | Inr response \<Rightarrow>
                  (case response of
                     Inl err \<Rightarrow> (Inl err, [GroqFetch call])
                   | Inr data \<Rightarrow>
                       (case first_choice_content data of
                          Inl err \<Rightarrow> (Inl err, [GroqFetch call])
                        | Inr c \<Rightarrow>
                            (Inr \<lparr>role = lit ''assistant'',
                                  content = (if truthy c then c else JStr (lit ''Error from API'')),
                                  via = Some (lit ''Indresh (Turbo)'')\<rparr>,
                             [GroqFetch call]))))))"

text \<open>The body of the \<open>try\<close> block.\<close>

definition try_block ::
  "revision \<Rightarrow> env \<Rightarrow> jsstring \<Rightarrow> jsval list \<Rightarrow> chat_request \<Rightarrow> (js_error + chat_reply) \<times> outbound list" where
  "try_block rv e rt geminiHistory req =
     (if gemini_mode rt then gemini_branch rv e rt geminiHistory (message req)
      else groq_branch e req)"

text \<open>
  The handler of \<open>POST /api/chat\<close>. It answers with a reply, or its promise is rejected
  with what was thrown. \<open>requestedType\<close> and \<open>sanitizeHistory\<close> are evaluated before the
  \<open>try\<close> block; what the block throws, the catch handler turns into a reply. The second
  component lists the calls made to the providers, in order. Writing to the console is
  left out.
\<close>

datatype outcome = Responded chat_reply | Rejected js_error

text \<open>
  The catch handler:
  \<^verbatim>\<open>catch (error) { return res.json({ output: { role: "assistant", content: `... Error: ${error.message}.` } }); }\<close>
\<close>

definition catch_handler :: "env \<Rightarrow> js_error + chat_reply \<Rightarrow> chat_reply" where
  "catch_handler e r =
     (case r of Inr reply \<Rightarrow> reply | Inl err \<Rightarrow> error_reply (error_message e err))"

definition chat_handler :: "revision \<Rightarrow> env \<Rightarrow> chat_request \<Rightarrow> outcome \<times> outbound list" where
  "chat_handler rv e req =
     (case requestedType e (model req) of
        Inl err \<Rightarrow> (Rejected err, [])
      | Inr rt \<Rightarrow>
          (case sanitizeHistory (history req) of
             Inl err \<Rightarrow> (Rejected err, [])
           | Inr geminiHistory \<Rightarrow>
               (case try_block rv e rt geminiHistory req of
                  (r, calls) \<Rightarrow> (Responded (catch_handler e r), calls))))"

section \<open>Notions used in the statements\<close>

text \<open>A string is blank when it is empty or holds white space only.\<close>

definition blank :: "jsstring \<Rightarrow> bool" where
  "blank s = list_all is_white_space s"

text \<open>The elements of a history: those of the array, none when it is not an array.\<close>

definition elements :: "jsval \<Rightarrow> jsval list" where
  "elements h = (case h of JArr xs \<Rightarrow> xs | _ \<Rightarrow> [])"

text \<open>
  What \<open>sanitizeHistory\<close> takes as a turn without throwing: any value but \<open>undefined\<close> and
  \<open>null\<close> whose \<open>content\<close> is a string or is falsy (missing, null, false, zero). The turns
  the interface documents, objects with a string \<open>content\<close>, are among them. A history is
  then any value that is not an array (an absent history too), or an array of turns; a
  model hint is a string or a falsy value (an absent hint too).
\<close>

definition is_turn :: "jsval \<Rightarrow> bool" where
  "is_turn v =
     (\<not> nullish v \<and>
      (case read_prop v (lit ''content'') of
         Inr (JStr s) \<Rightarrow> True
       | Inr c \<Rightarrow> \<not> truthy c
       | Inl err \<Rightarrow> False))"

definition turns_or_none :: "jsval \<Rightarrow> bool" where
  "turns_or_none h = list_all is_turn (elements h)"

definition hint_or_none :: "jsval \<Rightarrow> bool" where
  "hint_or_none m = (case m of JStr s \<Rightarrow> True | _ \<Rightarrow> \<not> truthy m)"

text \<open>\<open>Array.isArray\<close>\<close>

definition isArray :: "jsval \<Rightarrow> bool" where
  "isArray v = (case v of JArr xs \<Rightarrow> True | _ \<Rightarrow> False)"

text \<open>The object \<^verbatim>\<open>{ role: r, parts: [{ text: t }] }\<close> that \<open>sanitizeHistory\<close> builds.\<close>

definition gemini_turn :: "jsstring \<Rightarrow> jsval \<Rightarrow> jsval" where
  "gemini_turn r t = JObj [(lit ''role'', JStr r), (lit ''parts'', JArr [JObj [(lit ''text'', t)]])]"

text \<open>
  \<open>role_mapped msg m\<close>: the role of \<open>m\<close> is user when that of \<open>msg\<close> is the string user
  and model otherwise, and the text of \<open>m\<close> is the content of \<open>msg\<close>.
\<close>

definition role_mapped :: "jsval \<Rightarrow> jsval \<Rightarrow> bool" where
  "role_mapped msg m =
     (read_prop m (lit ''role'') =
        Inr (JStr (if read_prop msg (lit ''role'') = Inr (JStr (lit ''user''))
                   then lit ''user'' else lit ''model''))
      \<and> text_of m = read_prop msg (lit ''content''))"

text \<open>
  A normalized turn read back as a turn of a history: the same role, and as
  \<open>content\<close> the text of its first part.
\<close>

definition as_turn :: "jsval \<Rightarrow> jsval" where
  "as_turn m =
     JObj [(lit ''role'', (case read_prop m (lit ''role'') of Inl err \<Rightarrow> JUndefined | Inr r \<Rightarrow> r)),
           (lit ''content'', (case text_of m of Inl err \<Rightarrow> JUndefined | Inr t \<Rightarrow> t))]"

definition turn :: "string \<Rightarrow> string \<Rightarrow> jsval" where
  "turn r c = JObj [(lit ''role'', JStr (lit r)), (lit ''content'', JStr (lit c))]"

text \<open>
  The wording of the two TypeErrors in the concrete runs, after V8:
  \<^verbatim>\<open>Cannot read properties of undefined (reading 'map')\<close> and
  \<^verbatim>\<open>map is not a function\<close> (V8 puts the expression before the name as well).
\<close>

definition demo_wording :: "js_error \<Rightarrow> jsstring" where
  "demo_wording err =
     (case err of
        CannotRead v p \<Rightarrow>
          lit ''Cannot read properties of ''
          @ (if v = JNull then lit ''null'' else lit ''undefined'')
          @ lit '' (reading '' @ [0x27] @ p @ [0x27] @ lit '')''
      | NotAFunction p \<Rightarrow> p @ lit '' is not a function''
      | Thrown m \<Rightarrow> m)"

text \<open>
  An environment for concrete runs: both keys set, the primary provider answering
  \<open>ok\<close>, the secondary provider answering with an empty list of choices.
\<close>

definition demo_env :: env where
  "demo_env =
     \<lparr>GEMINI_KEY_var = Some (lit ''key-1''),
      GROQ_KEY_var = Some (lit ''key-2''),
      SYSTEM_INSTRUCTION_INDRESH = lit ''You are Indresh 2.0'',
      toLowerCase = ascii_lower,
      wording = demo_wording,
      sendMessage = (\<lambda>call. Inr (lit ''ok'')),
      fetch = (\<lambda>call. Inr (Inr (JObj [(lit ''choices'', JArr [])])))\<rparr>"

text \<open>
  The same with the primary key unset, with the secondary key unset, with a primary
  provider that fails, and with a secondary provider whose first choice carries the
  number 5 as content.
\<close>

definition no_key_env :: env where
  "no_key_env = demo_env\<lparr>GEMINI_KEY_var := None\<rparr>"

definition no_groq_key_env :: env where
  "no_groq_key_env = demo_env\<lparr>GROQ_KEY_var := None\<rparr>"

definition failing_env :: env where
  "failing_env = demo_env\<lparr>sendMessage := (\<lambda>call. Inl (Thrown (lit ''fetch failed'')))\<rparr>"

definition numeric_env :: env where
  "numeric_env =
     demo_env\<lparr>fetch := (\<lambda>call. Inr (Inr (JObj [(lit ''choices'',
       JArr [JObj [(lit ''message'', JObj [(lit ''content'', JNum 5)])]])])))\<rparr>"

text \<open>\<open>formatted_from msg m\<close>: \<open>m\<close> is what the callback of \<open>history.map\<close> returns for \<open>msg\<close>.\<close>

definition formatted_from :: "jsval \<Rightarrow> jsval \<Rightarrow> bool" where
  "formatted_from msg m =
     (\<exists>r c. read_prop msg (lit ''role'') = Inr r \<and> read_prop msg (lit ''content'') = Inr c \<and>
        m = gemini_turn (if r = JStr (lit ''user'') then lit ''user'' else lit ''model'') c)"

text \<open>A formatted turn on which the filter does not throw: its text is falsy or a string.\<close>

definition quiet_turn :: "jsval \<Rightarrow> bool" where
  "quiet_turn m = (\<exists>r t. m = gemini_turn r t \<and> (truthy t \<longrightarrow> (\<exists>s. t = JStr s)))"

text \<open>The shape of every element \<open>sanitizeHistory\<close> returns.\<close>

definition normal_turn :: "jsval \<Rightarrow> bool" where
  "normal_turn m =
     (\<exists>r s. m = gemini_turn r (JStr s) \<and> (r = lit ''user'' \<or> r = lit ''model'') \<and> \<not> blank s)"

text \<open>The history of the specification's scenario A.\<close>

definition scenario_A :: jsval where
  "scenario_A = JArr [turn ''assistant'' ''hi'', turn ''user'' ''hello'', turn ''user'' '''']"

text \<open>
  A response without choices: an object whose \<open>choices\<close> is missing, null or an empty
  array.
\<close>

definition no_choices :: "jsval \<Rightarrow> bool" where
  "no_choices data =
     (case data of
        JObj ps \<Rightarrow> (case map_of ps (lit ''choices'') of
                      None \<Rightarrow> True | Some c \<Rightarrow> nullish c \<or> c = JArr [])
      | _ \<Rightarrow> False)"

text \<open>
  The message list of the secondary branch for scenario A, the message hi and the persona
  of \<open>demo_env\<close>.
\<close>

definition scenario_A_messages :: "jsval list" where
  "scenario_A_messages =
     [JObj [(lit ''role'', JStr (lit ''system'')), (lit ''content'', JStr (lit ''You are Indresh 2.0''))],
      JObj [(lit ''role'', JStr (lit ''assistant'')), (lit ''content'', JStr (lit ''hi''))],
      JObj [(lit ''role'', JStr (lit ''user'')), (lit ''content'', JStr (lit ''hello''))],
      JObj [(lit ''role'', JStr (lit ''user'')), (lit ''content'', JStr [])],
      JObj [(lit ''role'', JStr (lit ''user'')), (lit ''content'', JStr (lit ''hi''))]]"

section \<open>Strings and failures\<close>

lemma of_char_small: "(of_char c :: nat) < 256"
proof -
  have "(of_char c :: nat) mod 256 = of_char c" by (rule of_char_mod_256)
  then show ?thesis by (metis mod_less_divisor zero_less_numeral)
qed

lemma unat_unit_of: "unat (unit_of c) = of_char c"
proof -
  have "(of_char c :: nat) < 65536" using of_char_small [of c] by linarith
  then show ?thesis by (simp add: unit_of_def unat_of_nat)
qed

lemma unit_of_eq_iff [simp]: "unit_of c = unit_of d \<longleftrightarrow> c = d"
proof
  assume "unit_of c = unit_of d"
  then have "unat (unit_of c) = unat (unit_of d)" by simp
  then show "c = d" by (simp add: unat_unit_of)
qed simp

lemma lit_eq_iff [simp]: "lit a = lit b \<longleftrightarrow> a = b"
  unfolding lit_def by (rule inj_map_eq_map) (simp add: inj_on_def)

lemma lit_Nil [simp]: "lit [] = []" by (simp add: lit_def)
lemma lit_eq_Nil [simp]: "lit a = [] \<longleftrightarrow> a = []" by (simp add: lit_def)

lemma lit_append: "lit (a @ b) = lit a @ lit b"
  by (simp add: lit_def)

lemma dropWhile_Nil_iff: "dropWhile P xs = [] \<longleftrightarrow> list_all P xs"
  by (induction xs) auto

lemma list_all_dropWhile_self: "list_all P (dropWhile P xs) \<longleftrightarrow> list_all P xs"
  by (induction xs) auto

lemma trim_empty_iff: "trim s = [] \<longleftrightarrow> blank s"
proof -
  have "trim s = [] \<longleftrightarrow> list_all is_white_space (rev (dropWhile is_white_space s))"
    unfolding trim_def rev_is_Nil_conv by (rule dropWhile_Nil_iff)
  also have "\<dots> \<longleftrightarrow> list_all is_white_space (dropWhile is_white_space s)"
    by (simp add: list_all_iff)
  also have "\<dots> \<longleftrightarrow> blank s"
    unfolding blank_def by (rule list_all_dropWhile_self)
  finally show ?thesis .
qed

lemma andThen_Inr_iff: "andThen r f = Inr y \<longleftrightarrow> (\<exists>v. r = Inr v \<and> f v = Inr y)"
  by (cases r) (simp_all add: andThen_def)

lemma andThen_simps [simp]: "andThen (Inl e) f = Inl e" "andThen (Inr v) f = f v"
  by (simp_all add: andThen_def)

lemma map_all_Inr: "map_all f xs = Inr ys \<Longrightarrow> list_all2 (\<lambda>x y. f x = Inr y) xs ys"
  by (induction xs arbitrary: ys) (auto simp: andThen_Inr_iff)

lemma filter_all_Inr: "filter_all f xs = Inr ys \<Longrightarrow> ys = filter (\<lambda>x. f x = Inr True) xs"
  by (induction xs arbitrary: ys) (auto simp: andThen_Inr_iff)

section \<open>What sanitizeHistory returns\<close>

text \<open>
  A returned sequence is the formatted history with the turns of falsy or blank text
  filtered out and the leading turns of role model dropped.
\<close>

lemma read_gemini_turn [simp]:
  "read_prop (gemini_turn r t) (lit ''role'') = Inr (JStr r)"
  "text_of (gemini_turn r t) = Inr t"
  by (simp_all add: gemini_turn_def text_of_def)

lemma format_msg_Inr:
  "format_msg msg = Inr m \<longleftrightarrow>
     (\<exists>r c. read_prop msg (lit ''role'') = Inr r \<and> read_prop msg (lit ''content'') = Inr c \<and>
        m = gemini_turn (if r = JStr (lit ''user'') then lit ''user'' else lit ''model'') c)"
  by (auto simp: format_msg_def andThen_Inr_iff gemini_turn_def)

lemma keeps_gemini_turn:
  "keeps (gemini_turn r t) = Inr b \<longleftrightarrow>
     (if truthy t then (\<exists>s. t = JStr s \<and> b = (\<not> blank s)) else \<not> b)"
  by (cases t) (auto simp: keeps_def trim_empty_iff)

lemma shift_leading_turns:
  "list_all (\<lambda>m. \<exists>r t. m = gemini_turn r t) ms \<Longrightarrow>
   shift_leading ms = Inr (dropWhile (\<lambda>m. read_prop m (lit ''role'') \<noteq> Inr (JStr (lit ''user''))) ms)"
  by (induction ms) auto

lemma format_msg_iff: "format_msg msg = Inr m \<longleftrightarrow> formatted_from msg m"
  by (simp add: format_msg_Inr formatted_from_def)

lemma map_all_format_turns:
  "map_all format_msg xs = Inr fs \<Longrightarrow> list_all2 formatted_from xs fs"
  using map_all_Inr [of format_msg xs fs] by (simp add: format_msg_iff)

lemma formatted_from_turn: "formatted_from msg m \<Longrightarrow> \<exists>r t. m = gemini_turn r t"
  by (auto simp: formatted_from_def)

lemma list_all2_formatted_turns:
  "list_all2 formatted_from xs fs \<Longrightarrow> list_all (\<lambda>m. \<exists>r t. m = gemini_turn r t) fs"
  by (induction rule: list_all2_induct) (auto dest: formatted_from_turn)

lemma sanitizeHistory_Inr:
  assumes "sanitizeHistory h = Inr out"
  shows "\<exists>fs. list_all2 formatted_from (elements h) fs \<and>
           filter_all keeps fs = Inr (filter (\<lambda>m. keeps m = Inr True) fs) \<and>
           out = dropWhile (\<lambda>m. read_prop m (lit ''role'') \<noteq> Inr (JStr (lit ''user'')))
                   (filter (\<lambda>m. keeps m = Inr True) fs)"
proof (cases "\<exists>xs. h = JArr xs \<and> xs \<noteq> []")
  case False
  then have "out = []" "elements h = []"
    using assms by (auto simp: sanitizeHistory_def elements_def split: jsval.splits if_splits)
  then show ?thesis by simp
next
  case True
  then obtain xs where h: "h = JArr xs" "xs \<noteq> []" by blast
  with assms obtain fs ks where
    fs: "map_all format_msg xs = Inr fs" and ks: "filter_all keeps fs = Inr ks"
    and out: "shift_leading ks = Inr out"
    by (auto simp: sanitizeHistory_def andThen_Inr_iff)
  have rel: "list_all2 formatted_from xs fs" using fs by (rule map_all_format_turns)
  have ks_eq: "ks = filter (\<lambda>m. keeps m = Inr True) fs" using ks by (rule filter_all_Inr)
  have "list_all (\<lambda>m. \<exists>r t. m = gemini_turn r t) fs"
    using rel by (rule list_all2_formatted_turns)
  then have "list_all (\<lambda>m. \<exists>r t. m = gemini_turn r t) ks"
    unfolding ks_eq by (simp add: list_all_iff)
  then have "shift_leading ks = Inr (dropWhile (\<lambda>m. read_prop m (lit ''role'') \<noteq> Inr (JStr (lit ''user''))) ks)"
    by (rule shift_leading_turns)
  with out have "out = dropWhile (\<lambda>m. read_prop m (lit ''role'') \<noteq> Inr (JStr (lit ''user''))) ks"
    by simp
  with rel ks ks_eq h show ?thesis by (auto simp: elements_def)
qed

section \<open>sanitizeHistory returns on every history of turns\<close>

lemma is_turn_format:
  assumes "is_turn msg"
  shows "\<exists>r t. format_msg msg = Inr (gemini_turn r t) \<and> (truthy t \<longrightarrow> (\<exists>s. t = JStr s))"
proof -
  from assms obtain r c where
    r: "read_prop msg (lit ''role'') = Inr r" and c: "read_prop msg (lit ''content'') = Inr c"
    by (cases msg) (simp_all add: is_turn_def)
  from assms c have "truthy c \<longrightarrow> (\<exists>s. c = JStr s)"
    by (cases c) (simp_all add: is_turn_def)
  with r c show ?thesis by (simp add: format_msg_def gemini_turn_def)
qed

lemma keeps_total:
  "truthy t \<longrightarrow> (\<exists>s. t = JStr s) \<Longrightarrow> \<exists>b. keeps (gemini_turn r t) = Inr b"
  by (cases "truthy t") (auto simp: keeps_gemini_turn)

lemma is_turn_quiet: "is_turn msg \<Longrightarrow> \<exists>m. format_msg msg = Inr m \<and> quiet_turn m"
  using is_turn_format [of msg] by (auto simp: quiet_turn_def)

lemma quiet_keeps: "quiet_turn m \<Longrightarrow> \<exists>b. keeps m = Inr b"
  using keeps_total by (auto simp: quiet_turn_def)

lemma quiet_shape: "quiet_turn m \<Longrightarrow> \<exists>r t. m = gemini_turn r t"
  by (auto simp: quiet_turn_def)

lemma map_all_turns:
  "list_all is_turn xs \<Longrightarrow> \<exists>fs. map_all format_msg xs = Inr fs \<and> list_all quiet_turn fs"
proof (induction xs)
  case Nil
  then show ?case by simp
next
  case (Cons x xs)
  then obtain fs where fs: "map_all format_msg xs = Inr fs" "list_all quiet_turn fs" by auto
  from Cons.prems obtain m where m: "format_msg x = Inr m" "quiet_turn m"
    using is_turn_quiet [of x] by auto
  from fs m show ?case by simp
qed

lemma filter_all_quiet:
  "list_all quiet_turn fs \<Longrightarrow> \<exists>ks. filter_all keeps fs = Inr ks \<and> list_all quiet_turn ks"
proof (induction fs)
  case Nil
  then show ?case by simp
next
  case (Cons m fs)
  then obtain ks where ks: "filter_all keeps fs = Inr ks" "list_all quiet_turn ks" by auto
  from Cons.prems obtain b where b: "keeps m = Inr b" using quiet_keeps [of m] by auto
  from ks b Cons.prems show ?case by simp
qed

lemma shift_leading_quiet:
  "list_all quiet_turn ks \<Longrightarrow> \<exists>out. shift_leading ks = Inr out"
proof -
  assume "list_all quiet_turn ks"
  then have "list_all (\<lambda>m. \<exists>r t. m = gemini_turn r t) ks"
    unfolding list_all_iff using quiet_shape by blast
  then show ?thesis using shift_leading_turns by blast
qed

lemma sanitizeHistory_returns:
  assumes "turns_or_none h"
  shows "\<exists>out. sanitizeHistory h = Inr out"
proof (cases "\<exists>xs. h = JArr xs \<and> xs \<noteq> []")
  case False
  then have "sanitizeHistory h = Inr []"
    by (auto simp: sanitizeHistory_def split: jsval.splits)
  then show ?thesis by blast
next
  case True
  then obtain xs where h: "h = JArr xs" "xs \<noteq> []" by blast
  with assms have turns: "list_all is_turn xs" by (simp add: turns_or_none_def elements_def)
  then obtain fs where fs: "map_all format_msg xs = Inr fs" "list_all quiet_turn fs"
    using map_all_turns by blast
  then obtain ks where ks: "filter_all keeps fs = Inr ks" "list_all quiet_turn ks"
    using filter_all_quiet by blast
  then obtain out where "shift_leading ks = Inr out"
    using shift_leading_quiet by blast
  with h fs ks show ?thesis by (simp add: sanitizeHistory_def)
qed

text \<open>Conversely, a history on which \<open>sanitizeHistory\<close> returns is one of turns.\<close>

lemma format_msg_not_nullish: "format_msg msg = Inr m \<Longrightarrow> \<not> nullish msg"
  by (cases msg) (simp_all add: format_msg_def)

lemma formatted_keeps_turn:
  assumes "formatted_from msg m" and "keeps m = Inr b"
  shows "is_turn msg"
proof -
  from assms(1) obtain r c where
    c: "read_prop msg (lit ''content'') = Inr c" and m: "m = gemini_turn r c"
    by (auto simp: formatted_from_def)
  from assms(1) have "\<not> nullish msg"
    using format_msg_not_nullish [of msg m] by (simp add: format_msg_iff)
  moreover from assms(2) m have "truthy c \<longrightarrow> (\<exists>s. c = JStr s)"
    by (auto simp: keeps_gemini_turn split: if_splits)
  ultimately show ?thesis using c by (cases c) (auto simp: is_turn_def)
qed

lemma filter_all_defined:
  "filter_all f xs = Inr ys \<Longrightarrow> x \<in> set xs \<Longrightarrow> \<exists>b. f x = Inr b"
  by (induction xs arbitrary: ys) (auto simp: andThen_Inr_iff)

lemma sanitizeHistory_only_turns:
  assumes "sanitizeHistory h = Inr out"
  shows "turns_or_none h"
proof (cases "\<exists>xs. h = JArr xs \<and> xs \<noteq> []")
  case False
  then show ?thesis
    by (cases h) (auto simp: turns_or_none_def elements_def)
next
  case True
  then obtain xs where h: "h = JArr xs" "xs \<noteq> []" by blast
  with assms obtain fs ks where
    fs: "map_all format_msg xs = Inr fs" and ks: "filter_all keeps fs = Inr ks"
    by (auto simp: sanitizeHistory_def andThen_Inr_iff)
  have rel: "list_all2 formatted_from xs fs" using fs by (rule map_all_format_turns)
  have "list_all is_turn xs"
    unfolding list_all_iff
  proof
    fix x assume "x \<in> set xs"
    with rel obtain m where m: "m \<in> set fs" "formatted_from x m"
      by (metis in_set_conv_nth list_all2_conv_all_nth)
    obtain b where "keeps m = Inr b" using filter_all_defined [OF ks m(1)] by blast
    with m(2) show "is_turn x" by (rule formatted_keeps_turn)
  qed
  with h show ?thesis by (simp add: turns_or_none_def elements_def)
qed

section \<open>The shape of the returned turns\<close>

lemma formatted_kept_normal:
  assumes "formatted_from msg m" and "keeps m = Inr True"
  shows "normal_turn m"
proof -
  from assms(1) obtain r t where m: "m = gemini_turn r t" and r: "r = lit ''user'' \<or> r = lit ''model''"
    by (auto simp: formatted_from_def)
  from assms(2) m have "truthy t \<and> (\<exists>s. t = JStr s \<and> \<not> blank s)"
    by (cases "truthy t") (auto simp: keeps_gemini_turn)
  with m r show ?thesis by (auto simp: normal_turn_def)
qed

lemma formatted_from_role_mapped: "formatted_from msg m \<Longrightarrow> role_mapped msg m"
  by (auto simp: formatted_from_def role_mapped_def)

lemma list_all2_subseq_source:
  "list_all2 R xs fs \<Longrightarrow> subseq out fs \<Longrightarrow> \<exists>ys. subseq ys xs \<and> list_all2 R ys out"
proof (induction arbitrary: out rule: list_all2_induct)
  case Nil
  then show ?case by auto
next
  case (Cons x xs f fs)
  show ?case
  proof (cases out)
    case Nil
    then show ?thesis by auto
  next
    case (Cons o1 rest)
    show ?thesis
    proof (cases "o1 = f")
      case True
      with Cons Cons.prems have "subseq rest fs" by simp
      then obtain ys where "subseq ys xs" "list_all2 R ys rest" using Cons.IH by blast
      with True Cons \<open>R x f\<close> show ?thesis
        by (intro exI [of _ "x # ys"]) simp
    next
      case False
      with Cons Cons.prems have "subseq out fs" by simp
      then obtain ys where ys: "subseq ys xs" "list_all2 R ys out" using Cons.IH by blast
      from ys(1) have "subseq ys (x # xs)" by (rule list_emb_Cons)
      with ys(2) show ?thesis by blast
    qed
  qed
qed

lemma sanitizeHistory_normal:
  assumes "sanitizeHistory h = Inr out"
  shows "list_all normal_turn out"
    and "out = [] \<or> read_prop (hd out) (lit ''role'') = Inr (JStr (lit ''user''))"
    and "\<exists>ys. subseq ys (elements h) \<and> list_all2 role_mapped ys out"
proof -
  let ?P = "\<lambda>m. read_prop m (lit ''role'') \<noteq> Inr (JStr (lit ''user''))"
  let ?K = "\<lambda>m. keeps m = Inr True"
  from sanitizeHistory_Inr [OF assms] obtain fs where
    rel: "list_all2 formatted_from (elements h) fs" and out: "out = dropWhile ?P (filter ?K fs)"
    by blast
  have sub: "set out \<subseteq> set (filter ?K fs)" unfolding out by (rule set_dropWhileD [THEN subsetI])
  show "list_all normal_turn out"
    unfolding list_all_iff
  proof
    fix m assume "m \<in> set out"
    with sub have m: "m \<in> set fs" "keeps m = Inr True" by auto
    from m(1) rel obtain msg where "formatted_from msg m"
      by (metis in_set_conv_nth list_all2_conv_all_nth)
    then show "normal_turn m" using m(2) by (rule formatted_kept_normal)
  qed
  show "out = [] \<or> read_prop (hd out) (lit ''role'') = Inr (JStr (lit ''user''))"
    unfolding out using hd_dropWhile [of ?P "filter ?K fs"] by blast
  have "subseq out (filter ?K fs)" unfolding out
    by (metis suffix_dropWhile suffix_imp_sublist sublist_imp_subseq)
  then have "subseq out fs" by (rule subseq_order.order_trans) simp
  with rel obtain ys where "subseq ys (elements h)" "list_all2 formatted_from ys out"
    using list_all2_subseq_source by blast
  then show "\<exists>ys. subseq ys (elements h) \<and> list_all2 role_mapped ys out"
    using formatted_from_role_mapped by (blast intro: list_all2_mono)
qed

section \<open>Idempotence (claim C1)\<close>

lemma blank_Nil [simp]: "blank []" by (simp add: blank_def)

lemma as_turn_gemini_turn [simp]:
  "as_turn (gemini_turn r t) = JObj [(lit ''role'', JStr r), (lit ''content'', t)]"
  by (simp add: as_turn_def)

lemma format_msg_turn [simp]:
  "format_msg (JObj [(lit ''role'', r), (lit ''content'', c)]) =
     Inr (gemini_turn (if r = JStr (lit ''user'') then lit ''user'' else lit ''model'') c)"
  by (simp add: format_msg_def gemini_turn_def)

lemma keeps_string [simp]: "keeps (gemini_turn r (JStr s)) = Inr (\<not> blank s)"
  by (cases s) (simp_all add: keeps_def trim_empty_iff)

lemma keeps_falsy [simp]: "\<not> truthy t \<Longrightarrow> keeps (gemini_turn r t) = Inr False"
  by (simp add: keeps_def)

lemma not_blank_hello: "\<not> blank (lit ''hello'')" "\<not> blank (lit ''hi'')"
  by (simp_all add: blank_def lit_def unit_of_def is_white_space_def)

lemma scenario_A_normalized:
  "sanitizeHistory scenario_A = Inr [gemini_turn (lit ''user'') (JStr (lit ''hello''))]"
  by (simp add: scenario_A_def sanitizeHistory_def turn_def not_blank_hello)

lemma map_all_read_back:
  "list_all normal_turn out \<Longrightarrow> map_all format_msg (map as_turn out) = Inr out"
  by (induction out) (auto simp: normal_turn_def)

lemma filter_all_normal:
  "list_all normal_turn out \<Longrightarrow> filter_all keeps out = Inr out"
  by (induction out) (auto simp: normal_turn_def)

lemma sanitizeHistory_read_back:
  assumes "sanitizeHistory h = Inr out"
  shows "sanitizeHistory (JArr (map as_turn out)) = Inr out"
proof (cases "out = []")
  case True
  then show ?thesis by (simp add: sanitizeHistory_def)
next
  case False
  have n: "list_all normal_turn out" using assms by (rule sanitizeHistory_normal(1))
  have m1: "map_all format_msg (map as_turn out) = Inr out" using n by (rule map_all_read_back)
  have f1: "filter_all keeps out = Inr out" using n by (rule filter_all_normal)
  have "read_prop (hd out) (lit ''role'') = Inr (JStr (lit ''user''))"
    using sanitizeHistory_normal(2) [OF assms] False by simp
  with False have s1: "shift_leading out = Inr out" by (cases out) simp_all
  from False show ?thesis by (simp add: sanitizeHistory_def m1 f1 s1)
qed

text \<open>
  Claim C1, as amended. \<open>sanitizeHistory\<close> returns objects of the shape
  \<^verbatim>\<open>{ role, parts: [{ text }] }\<close>, which have no \<open>content\<close>. Once each returned turn is read
  back as a turn of a history (same role, \<open>content\<close> taken from the text of its first
  part), normalizing again gives the same sequence; where the first pass throws, so does
  the composition, with the same error.
\<close>

theorem normalize_idempotent_read_back:
  "andThen (sanitizeHistory h) (\<lambda>out. sanitizeHistory (JArr (map as_turn out))) = sanitizeHistory h"
  by (cases "sanitizeHistory h") (simp_all add: sanitizeHistory_read_back)

text \<open>
  The amended C1 on the history of scenario A.
\<close>

theorem normalize_idempotent_read_back_witness:
  "andThen (sanitizeHistory scenario_A) (\<lambda>out. sanitizeHistory (JArr (map as_turn out)))
     = Inr [gemini_turn (lit ''user'') (JStr (lit ''hello''))]"
  using normalize_idempotent_read_back [of scenario_A] by (simp add: scenario_A_normalized)

text \<open>
  Claim C1 as stated fails: the history with the one turn (user, hi) normalizes to one
  turn, and \<open>sanitizeHistory\<close> applied to that output reads \<open>content\<close> of an object that has
  none, filters the turn out and returns the empty sequence.
\<close>

theorem normalize_twice_counterexample:
  "sanitizeHistory (JArr [turn ''user'' ''hi'']) = Inr [gemini_turn (lit ''user'') (JStr (lit ''hi''))]
   \<and> sanitizeHistory (JArr [gemini_turn (lit ''user'') (JStr (lit ''hi''))]) = Inr []
   \<and> sanitizeHistory (JArr [gemini_turn (lit ''user'') (JStr (lit ''hi''))])
       \<noteq> sanitizeHistory (JArr [turn ''user'' ''hi''])"
  by (simp add: sanitizeHistory_def turn_def not_blank_hello format_msg_def gemini_turn_def keeps_def text_of_def trim_empty_iff)

section \<open>Invariants of the returned sequence (claims C2, C4, C5)\<close>

lemma scenario_A_turns: "turns_or_none scenario_A"
  by (simp add: turns_or_none_def elements_def scenario_A_def is_turn_def turn_def)

lemma normal_turn_reads:
  assumes "normal_turn m"
  shows "read_prop m (lit ''role'') = Inr (JStr (lit ''user'')) \<or>
         read_prop m (lit ''role'') = Inr (JStr (lit ''model''))"
    and "\<exists>s. text_of m = Inr (JStr s) \<and> \<not> blank s"
  using assms by (auto simp: normal_turn_def)

text \<open>
  Claim C2. On every history that is not an array or is an array of turns,
  \<open>sanitizeHistory\<close> returns; and whatever the argument, a sequence it returns is empty or
  its first element has role user.
\<close>

theorem leading_role_is_user:
  "(turns_or_none h \<longrightarrow> (\<exists>out. sanitizeHistory h = Inr out)) \<and>
   (\<forall>out. sanitizeHistory h = Inr out \<longrightarrow>
      out = [] \<or> read_prop (hd out) (lit ''role'') = Inr (JStr (lit ''user'')))"
  using sanitizeHistory_returns [of h] sanitizeHistory_normal(2) [of h] by blast

text \<open>
  C2 on the history of scenario A.
\<close>

theorem leading_role_is_user_witness:
  "turns_or_none scenario_A \<and>
   sanitizeHistory scenario_A = Inr [gemini_turn (lit ''user'') (JStr (lit ''hello''))] \<and>
   read_prop (hd [gemini_turn (lit ''user'') (JStr (lit ''hello''))]) (lit ''role'')
     = Inr (JStr (lit ''user''))"
  using leading_role_is_user [of scenario_A] scenario_A_turns scenario_A_normalized by simp

text \<open>
  Claim C4. Every element of a returned sequence has role user or model, and the
  returned sequence is, in order, the image of a subsequence of the elements of the
  history: each returned element has role user when the role of its source is the string
  user and role model otherwise, and its text is the content of its source.
\<close>

theorem roles_are_mapped:
  "(turns_or_none h \<longrightarrow> (\<exists>out. sanitizeHistory h = Inr out)) \<and>
   (\<forall>out. sanitizeHistory h = Inr out \<longrightarrow>
      (\<forall>m \<in> set out. read_prop m (lit ''role'') = Inr (JStr (lit ''user'')) \<or>
                        read_prop m (lit ''role'') = Inr (JStr (lit ''model''))) \<and>
      (\<exists>ys. subseq ys (elements h) \<and> list_all2 role_mapped ys out))"
proof (intro conjI allI impI)
  assume "turns_or_none h"
  then show "\<exists>out. sanitizeHistory h = Inr out" by (rule sanitizeHistory_returns)
next
  fix out assume out: "sanitizeHistory h = Inr out"
  then have "list_all normal_turn out" by (rule sanitizeHistory_normal(1))
  then show "\<forall>m \<in> set out. read_prop m (lit ''role'') = Inr (JStr (lit ''user'')) \<or>
                        read_prop m (lit ''role'') = Inr (JStr (lit ''model''))"
    using normal_turn_reads(1) by (simp add: list_all_iff)
  from out show "\<exists>ys. subseq ys (elements h) \<and> list_all2 role_mapped ys out"
    by (rule sanitizeHistory_normal(3))
qed

text \<open>
  C4 on the history of scenario A: the one returned turn comes from (user, hello).
\<close>

theorem roles_are_mapped_witness:
  "turns_or_none scenario_A \<and>
   sanitizeHistory scenario_A = Inr [gemini_turn (lit ''user'') (JStr (lit ''hello''))] \<and>
   subseq [turn ''user'' ''hello''] (elements scenario_A) \<and>
   role_mapped (turn ''user'' ''hello'') (gemini_turn (lit ''user'') (JStr (lit ''hello'')))"
  using roles_are_mapped [of scenario_A] scenario_A_turns scenario_A_normalized
  by (simp add: elements_def scenario_A_def role_mapped_def turn_def)

text \<open>
  Claim C5. The text of every element of a returned sequence is a string that is not
  blank: not empty and not made of white space only.
\<close>

theorem no_blank_content:
  "(turns_or_none h \<longrightarrow> (\<exists>out. sanitizeHistory h = Inr out)) \<and>
   (\<forall>out. sanitizeHistory h = Inr out \<longrightarrow>
      (\<forall>m \<in> set out. \<exists>s. text_of m = Inr (JStr s) \<and> \<not> blank s))"
proof (intro conjI allI impI)
  assume "turns_or_none h"
  then show "\<exists>out. sanitizeHistory h = Inr out" by (rule sanitizeHistory_returns)
next
  fix out assume "sanitizeHistory h = Inr out"
  then have "list_all normal_turn out" by (rule sanitizeHistory_normal(1))
  then show "\<forall>m \<in> set out. \<exists>s. text_of m = Inr (JStr s) \<and> \<not> blank s"
    using normal_turn_reads(2) by (simp add: list_all_iff)
qed

text \<open>
  C5 on the history of scenario A.
\<close>

theorem no_blank_content_witness:
  "turns_or_none scenario_A \<and>
   sanitizeHistory scenario_A = Inr [gemini_turn (lit ''user'') (JStr (lit ''hello''))] \<and>
   text_of (gemini_turn (lit ''user'') (JStr (lit ''hello''))) = Inr (JStr (lit ''hello'')) \<and>
   \<not> blank (lit ''hello'')"
  using no_blank_content [of scenario_A] scenario_A_turns scenario_A_normalized
  by (simp add: not_blank_hello)

section \<open>The handler: selection and missing keys (claims C6, C7)\<close>

lemma chat_handler_reached:
  assumes "requestedType e (model req) = Inr rt" and "sanitizeHistory (history req) = Inr gh"
  shows "chat_handler rv e req =
           (Responded (catch_handler e (fst (try_block rv e rt gh req))),
            snd (try_block rv e rt gh req))"
  using assms by (simp add: chat_handler_def split: prod.splits)

lemma requestedType_string:
  "s \<noteq> [] \<Longrightarrow> requestedType e (JStr s) = Inr (toLowerCase e s)"
  by (simp add: requestedType_def)

lemma requestedType_default:
  "\<not> truthy m \<Longrightarrow> requestedType e m = Inr (toLowerCase e (lit ''gemini''))"
  by (simp add: requestedType_def)

lemma demo_lower [simp]:
  "toLowerCase demo_env = ascii_lower" "toLowerCase no_key_env = ascii_lower"
  "toLowerCase no_groq_key_env = ascii_lower" "toLowerCase failing_env = ascii_lower"
  "toLowerCase numeric_env = ascii_lower"
  by (simp_all add: demo_env_def no_key_env_def no_groq_key_env_def failing_env_def numeric_env_def)

lemma ascii_lower_lit [simp]:
  "ascii_lower [] = []"
  "ascii_lower (lit ''gemini'') = lit ''gemini''"
  "ascii_lower (lit ''gemini-pro'') = lit ''gemini-pro''"
  "ascii_lower (lit ''groq-like-string'') = lit ''groq-like-string''"
  "ascii_lower (lit ''deepseek_r1_0528'') = lit ''deepseek_r1_0528''"
  by (simp_all add: ascii_lower_def lit_def unit_of_def)

lemma gemini_mode_examples:
  "gemini_mode (lit ''gemini'')" "gemini_mode (lit ''gemini-pro'')"
  "\<not> gemini_mode (lit ''groq-like-string'')" "\<not> gemini_mode (lit ''deepseek_r1_0528'')"
  by (simp_all add: gemini_mode_def lit_def)

lemma demo_keys:
  "GEMINI_KEY demo_env = lit ''key-1''" "GROQ_KEY demo_env = lit ''key-2''"
  "GEMINI_KEY no_key_env = []" "GROQ_KEY no_key_env = lit ''key-2''"
  "GEMINI_KEY failing_env = lit ''key-1''"
  "GROQ_KEY no_groq_key_env = []" "GROQ_KEY numeric_env = lit ''key-2''"
  by (simp_all add: GEMINI_KEY_def GROQ_KEY_def demo_env_def no_key_env_def failing_env_def
      no_groq_key_env_def numeric_env_def trim_def lit_def unit_of_def is_white_space_def)

text \<open>
  Claim C7. On a request whose history is of the documented kind (absent, not an array, or
  an array of turns), when the requested type contains gemini, flash or pro, so that the
  primary provider is selected, and the primary key is empty or unset, the handler
  answers with the configuration-error reply, whose content is the cross mark followed by
  " Error: AI Key Missing", and calls no provider.
\<close>

theorem missing_primary_key_no_call:
  assumes "requestedType e (model req) = Inr rt" and "gemini_mode rt"
    and "GEMINI_KEY e = []" and "turns_or_none (history req)"
  shows "chat_handler rv e req =
           (Responded \<lparr>role = lit ''assistant'',
                       content = JStr ([0x274C] @ lit '' Error: AI Key Missing''),
                       via = None\<rparr>,
            [])"
proof -
  from assms(4) obtain gh where gh: "sanitizeHistory (history req) = Inr gh"
    using sanitizeHistory_returns by blast
  show ?thesis
    using assms(2,3)
    by (simp add: chat_handler_reached [OF assms(1) gh] try_block_def gemini_branch_def
        catch_handler_def key_missing_reply_def)
qed

text \<open>
  C7 for the hint gemini-pro and the history of scenario A, in an environment without the
  primary key.
\<close>

theorem missing_primary_key_no_call_witness:
  "requestedType no_key_env (JStr (lit ''gemini-pro'')) = Inr (lit ''gemini-pro'') \<and>
   gemini_mode (lit ''gemini-pro'') \<and> GEMINI_KEY no_key_env = [] \<and>
   turns_or_none scenario_A \<and>
   chat_handler RevA no_key_env
     \<lparr>message = JStr (lit ''hi''), history = scenario_A, model = JStr (lit ''gemini-pro'')\<rparr>
     = (Responded \<lparr>role = lit ''assistant'',
                   content = JStr ([0x274C] @ lit '' Error: AI Key Missing''),
                   via = None\<rparr>,
        [])"
  using missing_primary_key_no_call
    [of no_key_env
        "\<lparr>message = JStr (lit ''hi''), history = scenario_A, model = JStr (lit ''gemini-pro'')\<rparr>"
        "lit ''gemini-pro''" RevA]
  by (simp add: requestedType_string gemini_mode_examples demo_keys scenario_A_turns)

lemma str_includes_gemini:
  "str_includes (lit ''gemini'') (lit ''gemini'')"
  "\<not> str_includes (lit ''gemini'') (lit ''flash'')"
  "\<not> str_includes (lit ''gemini'') (lit ''pro'')"
  by (simp_all add: lit_def)

lemma capable_variant_other_revisions:
  "rv \<noteq> RevC \<Longrightarrow> \<not> str_includes rt (lit ''flash'') \<Longrightarrow> targetModelName rv rt = MODEL_PRO rv"
  by (cases rv) simp_all

text \<open>
  Whatever the engine, as long as it leaves the word gemini as it is: with the primary key
  set, the third revision hands the hint gemini to its flash model.
\<close>

lemma third_revision_flash_for_any_engine:
  assumes "toLowerCase e (lit ''gemini'') = lit ''gemini''" and "GEMINI_KEY e \<noteq> []"
  shows "snd (chat_handler RevC e \<lparr>message = m, history = JUndefined, model = JStr (lit ''gemini'')\<rparr>)
           = [GeminiChat (gemini_request RevC e (lit ''gemini'') [] m)]"
    and "g_model (gemini_request RevC e (lit ''gemini'') [] m) = lit ''gemini-2.0-flash-exp''"
proof -
  have rt: "requestedType e (JStr (lit ''gemini'')) = Inr (lit ''gemini'')"
    using assms(1) by (simp add: requestedType_string)
  show "snd (chat_handler RevC e \<lparr>message = m, history = JUndefined, model = JStr (lit ''gemini'')\<rparr>)
           = [GeminiChat (gemini_request RevC e (lit ''gemini'') [] m)]"
    using assms(2)
    by (simp add: chat_handler_def rt sanitizeHistory_def try_block_def gemini_mode_examples
        gemini_branch_def Let_def split: sum.splits)
  show "g_model (gemini_request RevC e (lit ''gemini'') [] m) = lit ''gemini-2.0-flash-exp''"
    by (simp add: gemini_request_def str_includes_gemini)
qed

text \<open>
  Claim C6 on the third revision (lines 410 to 414 of \<open>part_000\<close>). The hint gemini
  contains gemini and neither flash nor pro, and the revision sends it to its flash
  model: its test is \<^verbatim>\<open>requestedType.includes("pro") ? MODEL_PRO : MODEL_FLASH\<close>, under
  the comment "Flash mangne par Flash, warna Pro" (flash when flash is asked for, pro
  otherwise). The other three revisions choose the pro model, see
  \<open>capable_variant_other_revisions\<close>.
\<close>

theorem third_revision_default_is_flash:
  "requestedType demo_env (JStr (lit ''gemini'')) = Inr (lit ''gemini'') \<and>
   str_includes (lit ''gemini'') (lit ''gemini'') \<and>
   \<not> str_includes (lit ''gemini'') (lit ''flash'') \<and>
   \<not> str_includes (lit ''gemini'') (lit ''pro'') \<and>
   targetModelName RevC (lit ''gemini'') = lit ''gemini-2.0-flash-exp'' \<and>
   targetModelName RevC (lit ''gemini'') \<noteq> MODEL_PRO RevC \<and>
   chat_handler RevC demo_env
     \<lparr>message = JStr (lit ''hi''), history = JUndefined, model = JStr (lit ''gemini'')\<rparr>
     = (Responded \<lparr>role = lit ''assistant'', content = JStr (lit ''ok''),
                   via = Some (lit ''Indresh (gemini-2.0-flash-exp)'')\<rparr>,
        [GeminiChat (gemini_request RevC demo_env (lit ''gemini'') [] (JStr (lit ''hi'')))])"
proof -
  have rt: "requestedType demo_env (JStr (lit ''gemini'')) = Inr (lit ''gemini'')"
    by (simp add: requestedType_string)
  have t: "targetModelName RevC (lit ''gemini'') = lit ''gemini-2.0-flash-exp''"
    by (simp add: str_includes_gemini)
  have h: "chat_handler RevC demo_env
     \<lparr>message = JStr (lit ''hi''), history = JUndefined, model = JStr (lit ''gemini'')\<rparr>
     = (Responded \<lparr>role = lit ''assistant'', content = JStr (lit ''ok''),
                   via = Some (lit ''Indresh (gemini-2.0-flash-exp)'')\<rparr>,
        [GeminiChat (gemini_request RevC demo_env (lit ''gemini'') [] (JStr (lit ''hi'')))])"
    by (simp add: chat_handler_def rt sanitizeHistory_def try_block_def gemini_mode_examples
        gemini_branch_def demo_keys catch_handler_def t lit_def [of "''Indresh (''"] lit_def [of "'')''"]
        lit_def [of "''gemini-2.0-flash-exp''"] lit_def [of "''Indresh (gemini-2.0-flash-exp)''"])
       (simp add: demo_env_def lit_def)
  show ?thesis using rt t h by (simp add: str_includes_gemini)
qed

section \<open>The secondary branch (claims C9, C10)\<close>

lemma sanitizeHistory_non_array: "\<not> isArray h \<Longrightarrow> sanitizeHistory h = Inr []"
  by (cases h) (simp_all add: sanitizeHistory_def isArray_def)

lemma history_map_non_array:
  "\<not> isArray h \<Longrightarrow>
   history_map h = Inl (if nullish h then CannotRead h (lit ''map'') else NotAFunction (lit ''map''))"
  by (cases h) (simp_all add: history_map_def isArray_def)

text \<open>
  Claim C10, as amended. On the secondary branch with the secondary key set and a history
  that is not an array (absent, null, or any other value), \<open>sanitizeHistory\<close> has returned the
  empty sequence, but the branch maps over the raw history: the read or the call of
  \<open>map\<close> throws, the catch handler answers with the warning sign followed by
  " Error: ", the message of that TypeError and a full stop, and no provider is called.
\<close>

theorem non_array_history_on_secondary_path:
  assumes "requestedType e (model req) = Inr rt" and "\<not> gemini_mode rt"
    and "\<not> isArray (history req)" and "GROQ_KEY e \<noteq> []"
  shows "sanitizeHistory (history req) = Inr [] \<and>
         history_map (history req) =
           Inl (if nullish (history req) then CannotRead (history req) (lit ''map'')
                else NotAFunction (lit ''map'')) \<and>
         chat_handler rv e req =
           (Responded
              \<lparr>role = lit ''assistant'',
               content = JStr ([0x26A0, 0xFE0F] @ lit '' Error: ''
                 @ wording e (if nullish (history req) then CannotRead (history req) (lit ''map'')
                              else NotAFunction (lit ''map''))
                 @ lit ''.''),
               via = None\<rparr>,
            [])"
proof -
  have s: "sanitizeHistory (history req) = Inr []"
    using assms(3) by (rule sanitizeHistory_non_array)
  have m: "history_map (history req) =
             Inl (if nullish (history req) then CannotRead (history req) (lit ''map'')
                  else NotAFunction (lit ''map''))"
    using assms(3) by (rule history_map_non_array)
  have g: "groqMessages e req =
             Inl (if nullish (history req) then CannotRead (history req) (lit ''map'')
                  else NotAFunction (lit ''map''))"
    by (simp add: groqMessages_def m)
  have h: "chat_handler rv e req =
           (Responded
              \<lparr>role = lit ''assistant'',
               content = JStr ([0x26A0, 0xFE0F] @ lit '' Error: ''
                 @ wording e (if nullish (history req) then CannotRead (history req) (lit ''map'')
                              else NotAFunction (lit ''map''))
                 @ lit ''.''),
               via = None\<rparr>,
            [])"
    using assms(2,4)
    by (simp add: chat_handler_reached [OF assms(1) s] try_block_def groq_branch_def g
        catch_handler_def error_reply_def error_message_def)
  from s m h show ?thesis by blast
qed

text \<open>
  The amended C10 for the request the browser script sends: no history, and a model name
  that contains none of the three words. After the warning sign the reply reads
  \<^verbatim>\<open> Error: Cannot read properties of undefined (reading 'map').\<close>
\<close>

theorem non_array_history_on_secondary_path_witness:
  "requestedType demo_env (JStr (lit ''deepseek_r1_0528'')) = Inr (lit ''deepseek_r1_0528'') \<and>
   \<not> gemini_mode (lit ''deepseek_r1_0528'') \<and> \<not> isArray JUndefined \<and>
   GROQ_KEY demo_env \<noteq> [] \<and>
   sanitizeHistory JUndefined = Inr [] \<and>
   history_map JUndefined = Inl (CannotRead JUndefined (lit ''map'')) \<and>
   chat_handler RevA demo_env
     \<lparr>message = JStr (lit ''hi''), history = JUndefined, model = JStr (lit ''deepseek_r1_0528'')\<rparr>
     = (Responded
          \<lparr>role = lit ''assistant'',
           content = JStr ([0x26A0, 0xFE0F] @ lit '' Error: ''
             @ lit ''Cannot read properties of undefined (reading '' @ [0x27] @ lit ''map''
             @ [0x27] @ lit '')'' @ lit ''.''),
           via = None\<rparr>,
        [])"
proof -
  have w: "wording demo_env (CannotRead JUndefined (lit ''map''))
             = lit ''Cannot read properties of undefined (reading '' @ [0x27] @ lit ''map''
               @ [0x27] @ lit '')''"
    by (simp add: demo_env_def demo_wording_def lit_append [symmetric])
  have rt: "requestedType demo_env (JStr (lit ''deepseek_r1_0528'')) = Inr (lit ''deepseek_r1_0528'')"
    by (simp add: requestedType_string)
  have key: "GROQ_KEY demo_env \<noteq> []" by (simp add: demo_keys)
  have arr: "\<not> isArray JUndefined" by (simp add: isArray_def)
  show ?thesis
    using non_array_history_on_secondary_path
      [of demo_env
          "\<lparr>message = JStr (lit ''hi''), history = JUndefined, model = JStr (lit ''deepseek_r1_0528'')\<rparr>"
          "lit ''deepseek_r1_0528''" RevA]
      rt key arr gemini_mode_examples(4)
    by (simp add: w)
qed

text \<open>
  Claim C10 as stated fails when the secondary key is unset: the branch returns the
  configuration-error reply before it reaches the map, so nothing is thrown or caught,
  and the reply is not the text of the TypeError.
\<close>

theorem missing_secondary_key_counterexample:
  "requestedType no_groq_key_env (JStr (lit ''deepseek_r1_0528'')) = Inr (lit ''deepseek_r1_0528'') \<and>
   \<not> gemini_mode (lit ''deepseek_r1_0528'') \<and> \<not> isArray JUndefined \<and>
   GROQ_KEY no_groq_key_env = [] \<and>
   chat_handler RevA no_groq_key_env
     \<lparr>message = JStr (lit ''hi''), history = JUndefined, model = JStr (lit ''deepseek_r1_0528'')\<rparr>
     = (Responded \<lparr>role = lit ''assistant'',
                   content = JStr ([0x274C] @ lit '' Error: AI Key Missing''),
                   via = None\<rparr>,
        []) \<and>
   JStr ([0x274C] @ lit '' Error: AI Key Missing'')
     \<noteq> JStr ([0x26A0, 0xFE0F] @ lit '' Error: ''
            @ wording no_groq_key_env (CannotRead JUndefined (lit ''map'')) @ lit ''.'')"
  by (simp add: chat_handler_def requestedType_string sanitizeHistory_def try_block_def
      gemini_mode_examples groq_branch_def demo_keys catch_handler_def key_missing_reply_def
      isArray_def)

lemma no_choices_absent: "no_choices data \<Longrightarrow> first_choice_content data = Inr JUndefined"
  by (cases data)
     (auto simp: no_choices_def first_choice_content_def opt_chain_def split: option.splits)

lemma groq_branch_answer:
  assumes "GROQ_KEY e \<noteq> []" and "groqMessages e req = Inr msgs"
    and "fetch e (groq_request e msgs) = Inr (Inr data)"
    and "first_choice_content data = Inr c"
  shows "groq_branch e req =
           (Inr \<lparr>role = lit ''assistant'',
                 content = (if truthy c then c else JStr (lit ''Error from API'')),
                 via = Some (lit ''Indresh (Turbo)'')\<rparr>,
            [GroqFetch (groq_request e msgs)])"
  using assms by (simp add: groq_branch_def)

text \<open>
  Claim C9. On the secondary branch, when the provider's response is parsed and
  \<^verbatim>\<open>data.choices?.[0]?.message?.content\<close> is absent (undefined or null), as it is for a
  response whose \<open>choices\<close> is missing or empty (\<open>no_choices_absent\<close>), the handler
  answers with the content "Error from API" and the label of the secondary provider;
  nothing is thrown.
\<close>

theorem absent_content_falls_back:
  assumes "requestedType e (model req) = Inr rt" and "\<not> gemini_mode rt"
    and "sanitizeHistory (history req) = Inr gh"
    and "GROQ_KEY e \<noteq> []" and "groqMessages e req = Inr msgs"
    and "fetch e (groq_request e msgs) = Inr (Inr data)"
    and "first_choice_content data = Inr c" and "nullish c"
  shows "chat_handler rv e req =
           (Responded \<lparr>role = lit ''assistant'', content = JStr (lit ''Error from API''),
                       via = Some (lit ''Indresh (Turbo)'')\<rparr>,
            [GroqFetch (groq_request e msgs)])"
proof -
  from assms(8) have "\<not> truthy c" by (cases c) simp_all
  then show ?thesis
    using assms(2)
    by (simp add: chat_handler_reached [OF assms(1,3)] try_block_def
        groq_branch_answer [OF assms(4-7)] catch_handler_def)
qed

lemma scenario_A_groqMessages:
  "SYSTEM_INSTRUCTION_INDRESH e = lit ''You are Indresh 2.0'' \<Longrightarrow>
   groqMessages e \<lparr>message = JStr (lit ''hi''), history = scenario_A, model = m\<rparr>
     = Inr scenario_A_messages"
  by (simp add: groqMessages_def history_map_def scenario_A_def turn_def groq_turn_def
      scenario_A_messages_def)

lemma demo_persona:
  "SYSTEM_INSTRUCTION_INDRESH demo_env = lit ''You are Indresh 2.0''"
  "SYSTEM_INSTRUCTION_INDRESH numeric_env = lit ''You are Indresh 2.0''"
  by (simp_all add: demo_env_def numeric_env_def)

lemma demo_fetch: "fetch demo_env call = Inr (Inr (JObj [(lit ''choices'', JArr [])]))"
  by (simp add: demo_env_def)

lemma empty_choices_content:
  "first_choice_content (JObj [(lit ''choices'', JArr [])]) = Inr JUndefined"
  by (rule no_choices_absent) (simp add: no_choices_def)

text \<open>
  C9 on scenario E: the provider answers \<^verbatim>\<open>{ choices: [] }\<close>.
\<close>

theorem absent_content_falls_back_witness:
  "requestedType demo_env (JStr (lit ''groq-like-string'')) = Inr (lit ''groq-like-string'') \<and>
   \<not> gemini_mode (lit ''groq-like-string'') \<and>
   first_choice_content (JObj [(lit ''choices'', JArr [])]) = Inr JUndefined \<and>
   chat_handler RevA demo_env
     \<lparr>message = JStr (lit ''hi''), history = scenario_A, model = JStr (lit ''groq-like-string'')\<rparr>
     = (Responded \<lparr>role = lit ''assistant'', content = JStr (lit ''Error from API''),
                   via = Some (lit ''Indresh (Turbo)'')\<rparr>,
        [GroqFetch (groq_request demo_env scenario_A_messages)])"
  using absent_content_falls_back
    [of demo_env
        "\<lparr>message = JStr (lit ''hi''), history = scenario_A, model = JStr (lit ''groq-like-string'')\<rparr>"
        "lit ''groq-like-string''" "[gemini_turn (lit ''user'') (JStr (lit ''hello''))]"
        scenario_A_messages "JObj [(lit ''choices'', JArr [])]" JUndefined RevA]
  by (simp add: requestedType_string gemini_mode_examples scenario_A_normalized demo_keys
      scenario_A_groqMessages demo_persona demo_fetch empty_choices_content)

section \<open>Failures become replies (claim C3)\<close>

lemma hint_requestedType: "hint_or_none m \<Longrightarrow> \<exists>rt. requestedType e m = Inr rt"
  by (cases m) (simp_all add: hint_or_none_def requestedType_def)

lemma first_choice_content_nullish:
  "nullish data \<Longrightarrow> first_choice_content data = Inl (CannotRead data (lit ''choices''))"
  by (cases data) (simp_all add: first_choice_content_def)

lemma opt_chain_returns:
  "(\<And>v. \<not> nullish v \<Longrightarrow> \<exists>r. f v = Inr r) \<Longrightarrow> \<exists>r. opt_chain c f = Inr r"
  by (simp add: opt_chain_def)

lemma read_prop_returns: "\<not> nullish v \<Longrightarrow> \<exists>r. read_prop v p = Inr r"
  by (cases v) simp_all

lemma read_first_returns: "\<not> nullish v \<Longrightarrow> \<exists>r. read_first v = Inr r"
  by (cases v) simp_all

lemma first_choice_content_returns:
  assumes "\<not> nullish data"
  shows "\<exists>c. first_choice_content data = Inr c"
proof -
  from assms obtain choices where a: "read_prop data (lit ''choices'') = Inr choices"
    using read_prop_returns by blast
  obtain choice where b: "opt_chain choices read_first = Inr choice"
    using opt_chain_returns [of read_first choices] read_first_returns by blast
  obtain m where c: "opt_chain choice (\<lambda>c. read_prop c (lit ''message'')) = Inr m"
    using opt_chain_returns [of "\<lambda>c. read_prop c (lit ''message'')" choice] read_prop_returns
    by blast
  obtain r where d: "opt_chain m (\<lambda>x. read_prop x (lit ''content'')) = Inr r"
    using opt_chain_returns [of "\<lambda>x. read_prop x (lit ''content'')" m] read_prop_returns
    by blast
  from a b c d show ?thesis by (simp add: first_choice_content_def)
qed

lemma gemini_branch_outcomes:
  "gemini_branch rv e rt gh msg =
     (if GEMINI_KEY e = [] then (Inr key_missing_reply, [])
      else (case sendMessage e (gemini_request rv e rt gh msg) of
              Inl err \<Rightarrow> (Inl err, [GeminiChat (gemini_request rv e rt gh msg)])
            | Inr txt \<Rightarrow>
                (Inr \<lparr>role = lit ''assistant'', content = JStr txt,
                      via = Some (lit ''Indresh ('' @ displayModelName rv (targetModelName rv rt)
                                  @ lit '')'')\<rparr>,
                 [GeminiChat (gemini_request rv e rt gh msg)])))"
  by (simp add: gemini_branch_def Let_def)

lemma gemini_branch_failures:
  assumes "gemini_branch rv e rt gh msg = (r, calls)"
  shows "(GEMINI_KEY e = [] \<longrightarrow> r = Inr key_missing_reply \<and> calls = [])"
    and "GeminiChat g \<in> set calls \<Longrightarrow> sendMessage e g = Inl err \<Longrightarrow> r = Inl err"
    and "GroqFetch q \<notin> set calls"
  using assms by (auto simp: gemini_branch_outcomes split: if_splits sum.splits)

lemma groq_branch_failures:
  assumes "groq_branch e req = (r, calls)"
  shows "(GROQ_KEY e = [] \<longrightarrow> r = Inr key_missing_reply \<and> calls = [])"
    and "GroqFetch q \<in> set calls \<Longrightarrow> fetch e q = Inl err \<Longrightarrow> r = Inl err"
    and "GroqFetch q \<in> set calls \<Longrightarrow> fetch e q = Inr (Inl err) \<Longrightarrow> r = Inl err"
    and "GroqFetch q \<in> set calls \<Longrightarrow> fetch e q = Inr (Inr data) \<Longrightarrow>
           first_choice_content data = Inl err \<Longrightarrow> r = Inl err"
    and "GeminiChat g \<notin> set calls"
    and "calls = [] \<or> (\<exists>msgs. groqMessages e req = Inr msgs \<and> calls = [GroqFetch (groq_request e msgs)])"
    and "GroqFetch q \<in> set calls \<Longrightarrow> fetch e q = Inr (Inr data) \<Longrightarrow>
           first_choice_content data = Inr c \<Longrightarrow>
           r = Inr \<lparr>role = lit ''assistant'',
                     content = (if truthy c then c else JStr (lit ''Error from API'')),
                     via = Some (lit ''Indresh (Turbo)'')\<rparr>"
  using assms by (auto simp: groq_branch_def Let_def split: if_splits sum.splits)

text \<open>
  The two computations before the \<open>try\<close> block return exactly on the requests with a
  hint that is a string or falsy and a history of turns.
\<close>

lemma requestedType_only_hints: "requestedType e m = Inr rt \<Longrightarrow> hint_or_none m"
  by (cases m) (auto simp: requestedType_def hint_or_none_def split: if_splits)

lemma handler_rejects_other_requests:
  assumes "\<not> (hint_or_none (model req) \<and> turns_or_none (history req))"
  shows "\<exists>err. chat_handler rv e req = (Rejected err, [])"
proof (cases "requestedType e (model req)")
  case (Inl err)
  then show ?thesis by (simp add: chat_handler_def)
next
  case (Inr rt)
  then have "hint_or_none (model req)" by (rule requestedType_only_hints)
  with assms have "\<not> turns_or_none (history req)" by simp
  then obtain err where "sanitizeHistory (history req) = Inl err"
    using sanitizeHistory_only_turns [of "history req"] by (cases "sanitizeHistory (history req)") auto
  with Inr show ?thesis by (simp add: chat_handler_def)
qed

lemma caught_reply:
  "catch_handler e (Inl err) =
     \<lparr>role = lit ''assistant'',
      content = JStr ([0x26A0, 0xFE0F] @ lit '' Error: ''
        @ (case err of Thrown m \<Rightarrow> m | _ \<Rightarrow> wording e err) @ lit ''.''),
      via = None\<rparr>"
  by (simp add: catch_handler_def error_reply_def error_message_def)

lemma passed_reply: "catch_handler e (Inr reply) = reply"
  by (simp add: catch_handler_def)

text \<open>
  Claim C3, as amended. For a request whose model hint is a string or falsy and whose
  history is not an array or is an array of turns, the handler answers with a reply and
  raises nothing, whatever the environment does. When the key of the selected provider is
  missing the reply is the configuration-error text (the cross mark followed by
  " Error: AI Key Missing") and no call is made. When the call to the primary provider
  fails, when \<open>fetch\<close> fails, when the body of the response does not parse, or when the
  parsed body is null (reading its \<open>choices\<close> throws), the content of the reply is the
  warning sign followed by " Error: ", the message of the error and a full stop. When
  the body is parsed and not null, the content of the reply is
  \<^verbatim>\<open>data.choices?.[0]?.message?.content\<close> if that is truthy, whatever its type, and the
  text "Error from API" otherwise.
\<close>

theorem failures_become_replies:
  assumes "hint_or_none (model req)" and "turns_or_none (history req)"
  shows "\<exists>rt reply calls.
           requestedType e (model req) = Inr rt \<and>
           chat_handler rv e req = (Responded reply, calls) \<and>
           ((if gemini_mode rt then GEMINI_KEY e else GROQ_KEY e) = [] \<longrightarrow>
              reply = \<lparr>role = lit ''assistant'',
                        content = JStr ([0x274C] @ lit '' Error: AI Key Missing''),
                        via = None\<rparr> \<and>
              calls = []) \<and>
           (\<forall>g err. GeminiChat g \<in> set calls \<longrightarrow> sendMessage e g = Inl err \<longrightarrow>
              reply = \<lparr>role = lit ''assistant'',
                        content = JStr ([0x26A0, 0xFE0F] @ lit '' Error: ''
                          @ (case err of Thrown m \<Rightarrow> m | _ \<Rightarrow> wording e err) @ lit ''.''),
                        via = None\<rparr>) \<and>
           (\<forall>q err. GroqFetch q \<in> set calls \<longrightarrow> fetch e q = Inl err \<longrightarrow>
              reply = \<lparr>role = lit ''assistant'',
                        content = JStr ([0x26A0, 0xFE0F] @ lit '' Error: ''
                          @ (case err of Thrown m \<Rightarrow> m | _ \<Rightarrow> wording e err) @ lit ''.''),
                        via = None\<rparr>) \<and>
           (\<forall>q err. GroqFetch q \<in> set calls \<longrightarrow> fetch e q = Inr (Inl err) \<longrightarrow>
              reply = \<lparr>role = lit ''assistant'',
                        content = JStr ([0x26A0, 0xFE0F] @ lit '' Error: ''
                          @ (case err of Thrown m \<Rightarrow> m | _ \<Rightarrow> wording e err) @ lit ''.''),
                        via = None\<rparr>) \<and>
           (\<forall>q data. GroqFetch q \<in> set calls \<longrightarrow> fetch e q = Inr (Inr data) \<longrightarrow>
              nullish data \<longrightarrow>
              reply = \<lparr>role = lit ''assistant'',
                        content = JStr ([0x26A0, 0xFE0F] @ lit '' Error: ''
                          @ wording e (CannotRead data (lit ''choices'')) @ lit ''.''),
                        via = None\<rparr>) \<and>
           (\<forall>q data. GroqFetch q \<in> set calls \<longrightarrow> fetch e q = Inr (Inr data) \<longrightarrow>
              \<not> nullish data \<longrightarrow>
              (\<exists>c. first_choice_content data = Inr c \<and>
                   reply = \<lparr>role = lit ''assistant'',
                             content = (if truthy c then c else JStr (lit ''Error from API'')),
                             via = Some (lit ''Indresh (Turbo)'')\<rparr>))"
proof -
  from assms(1) obtain rt where rt: "requestedType e (model req) = Inr rt"
    using hint_requestedType by blast
  from assms(2) obtain gh where gh: "sanitizeHistory (history req) = Inr gh"
    using sanitizeHistory_returns by blast
  obtain r calls where tb: "try_block rv e rt gh req = (r, calls)"
    by (cases "try_block rv e rt gh req")
  have h: "chat_handler rv e req = (Responded (catch_handler e r), calls)"
    by (simp add: chat_handler_reached [OF rt gh] tb)
  have caught: "\<And>err. r = Inl err \<Longrightarrow> catch_handler e r =
      \<lparr>role = lit ''assistant'',
       content = JStr ([0x26A0, 0xFE0F] @ lit '' Error: ''
         @ (case err of Thrown m \<Rightarrow> m | _ \<Rightarrow> wording e err) @ lit ''.''),
       via = None\<rparr>"
    by (simp add: caught_reply)
  have missing: "r = Inr key_missing_reply \<Longrightarrow> catch_handler e r =
      \<lparr>role = lit ''assistant'', content = JStr ([0x274C] @ lit '' Error: AI Key Missing''),
       via = None\<rparr>"
    by (simp add: passed_reply key_missing_reply_def)
  show ?thesis
  proof (cases "gemini_mode rt")
    case True
    with tb have gb: "gemini_branch rv e rt gh (message req) = (r, calls)"
      by (simp add: try_block_def)
    show ?thesis
      using rt h True gemini_branch_failures [OF gb] caught missing
      by (intro exI [of _ rt] exI [of _ "catch_handler e r"] exI [of _ calls]) auto
  next
    case False
    with tb have qb: "groq_branch e req = (r, calls)"
      by (simp add: try_block_def)
    have null_body: "\<And>q data. GroqFetch q \<in> set calls \<Longrightarrow> fetch e q = Inr (Inr data) \<Longrightarrow>
        nullish data \<Longrightarrow>
        catch_handler e r = \<lparr>role = lit ''assistant'',
                        content = JStr ([0x26A0, 0xFE0F] @ lit '' Error: ''
                          @ wording e (CannotRead data (lit ''choices'')) @ lit ''.''),
                        via = None\<rparr>"
    proof -
      fix q data
      assume a: "GroqFetch q \<in> set calls" "fetch e q = Inr (Inr data)" "nullish data"
      from a(3) have "first_choice_content data = Inl (CannotRead data (lit ''choices''))"
        by (rule first_choice_content_nullish)
      with a(1,2) have "r = Inl (CannotRead data (lit ''choices''))"
        using groq_branch_failures(4) [OF qb] by blast
      then show "catch_handler e r = \<lparr>role = lit ''assistant'',
                        content = JStr ([0x26A0, 0xFE0F] @ lit '' Error: ''
                          @ wording e (CannotRead data (lit ''choices'')) @ lit ''.''),
                        via = None\<rparr>"
        by (simp add: caught_reply)
    qed
    have parsed: "\<And>q data. GroqFetch q \<in> set calls \<Longrightarrow> fetch e q = Inr (Inr data) \<Longrightarrow>
        \<not> nullish data \<Longrightarrow>
        (\<exists>c. first_choice_content data = Inr c \<and>
             catch_handler e r = \<lparr>role = lit ''assistant'',
                             content = (if truthy c then c else JStr (lit ''Error from API'')),
                             via = Some (lit ''Indresh (Turbo)'')\<rparr>)"
    proof -
      fix q data
      assume a: "GroqFetch q \<in> set calls" "fetch e q = Inr (Inr data)" "\<not> nullish data"
      from a(3) obtain c where c: "first_choice_content data = Inr c"
        using first_choice_content_returns by blast
      with a(1,2) have "r = Inr \<lparr>role = lit ''assistant'',
                     content = (if truthy c then c else JStr (lit ''Error from API'')),
                     via = Some (lit ''Indresh (Turbo)'')\<rparr>"
        using groq_branch_failures(7) [OF qb] by blast
      with c show "\<exists>c. first_choice_content data = Inr c \<and>
             catch_handler e r = \<lparr>role = lit ''assistant'',
                             content = (if truthy c then c else JStr (lit ''Error from API'')),
                             via = Some (lit ''Indresh (Turbo)'')\<rparr>"
        by (simp add: passed_reply)
    qed
    have key: "GROQ_KEY e = [] \<longrightarrow>
        catch_handler e r = \<lparr>role = lit ''assistant'',
          content = JStr ([0x274C] @ lit '' Error: AI Key Missing''), via = None\<rparr> \<and> calls = []"
      using groq_branch_failures(1) [OF qb] missing by blast
    have no_gemini: "\<And>g. GeminiChat g \<notin> set calls"
      using groq_branch_failures(5) [OF qb] by blast
    have f1: "\<And>q err. GroqFetch q \<in> set calls \<Longrightarrow> fetch e q = Inl err \<Longrightarrow>
        catch_handler e r = \<lparr>role = lit ''assistant'',
                        content = JStr ([0x26A0, 0xFE0F] @ lit '' Error: ''
                          @ (case err of Thrown m \<Rightarrow> m | _ \<Rightarrow> wording e err) @ lit ''.''),
                        via = None\<rparr>"
      using groq_branch_failures(2) [OF qb] caught by blast
    have f2: "\<And>q err. GroqFetch q \<in> set calls \<Longrightarrow> fetch e q = Inr (Inl err) \<Longrightarrow>
        catch_handler e r = \<lparr>role = lit ''assistant'',
                        content = JStr ([0x26A0, 0xFE0F] @ lit '' Error: ''
                          @ (case err of Thrown m \<Rightarrow> m | _ \<Rightarrow> wording e err) @ lit ''.''),
                        via = None\<rparr>"
      using groq_branch_failures(3) [OF qb] caught by blast
    show ?thesis
      using rt h False key no_gemini f1 f2 null_body parsed
      by (intro exI [of _ rt] exI [of _ "catch_handler e r"] exI [of _ calls]) simp
  qed
qed

lemma failing_send: "sendMessage failing_env call = Inl (Thrown (lit ''fetch failed''))"
  by (simp add: failing_env_def)

text \<open>
  The amended C3 with a primary provider that fails with the message "fetch failed": the
  reply embeds the message.
\<close>

theorem failures_become_replies_witness:
  "hint_or_none (JStr (lit ''gemini'')) \<and> turns_or_none scenario_A \<and>
   sendMessage failing_env
     (gemini_request RevA failing_env (lit ''gemini'')
        [gemini_turn (lit ''user'') (JStr (lit ''hello''))] (JStr (lit ''hi'')))
     = Inl (Thrown (lit ''fetch failed'')) \<and>
   chat_handler RevA failing_env
     \<lparr>message = JStr (lit ''hi''), history = scenario_A, model = JStr (lit ''gemini'')\<rparr>
     = (Responded
          \<lparr>role = lit ''assistant'',
           content = JStr ([0x26A0, 0xFE0F] @ lit '' Error: '' @ lit ''fetch failed'' @ lit ''.''),
           via = None\<rparr>,
        [GeminiChat (gemini_request RevA failing_env (lit ''gemini'')
           [gemini_turn (lit ''user'') (JStr (lit ''hello''))] (JStr (lit ''hi'')))])"
proof -
  have run: "chat_handler RevA failing_env
     \<lparr>message = JStr (lit ''hi''), history = scenario_A, model = JStr (lit ''gemini'')\<rparr>
     = (Responded (catch_handler failing_env (Inl (Thrown (lit ''fetch failed'')))),
        [GeminiChat (gemini_request RevA failing_env (lit ''gemini'')
           [gemini_turn (lit ''user'') (JStr (lit ''hello''))] (JStr (lit ''hi'')))])"
    by (simp add: chat_handler_def requestedType_string scenario_A_normalized try_block_def
        gemini_mode_examples gemini_branch_outcomes demo_keys failing_send)
  show ?thesis
    using failures_become_replies
      [of "\<lparr>message = JStr (lit ''hi''), history = scenario_A, model = JStr (lit ''gemini'')\<rparr>"
          failing_env RevA]
    by (simp add: hint_or_none_def scenario_A_turns failing_send run caught_reply)
qed

lemma numeric_fetch:
  "fetch numeric_env call =
     Inr (Inr (JObj [(lit ''choices'',
       JArr [JObj [(lit ''message'', JObj [(lit ''content'', JNum 5)])]])]))"
  by (simp add: numeric_env_def)

lemma numeric_content:
  "first_choice_content (JObj [(lit ''choices'',
       JArr [JObj [(lit ''message'', JObj [(lit ''content'', JNum 5)])]])]) = Inr (JNum 5)"
  by (simp add: first_choice_content_def opt_chain_def)

text \<open>
  Claim C3 as stated fails on a malformed response of the secondary provider: for the
  history of scenario A and the hint groq-like-string, when the first choice of the
  response carries the number 5 as content, the reply relays the number; its content is
  not a text and embeds no description of an error.
\<close>

theorem non_text_reply_counterexample:
  "hint_or_none (JStr (lit ''groq-like-string'')) \<and> turns_or_none scenario_A \<and>
   fetch numeric_env (groq_request numeric_env scenario_A_messages)
     = Inr (Inr (JObj [(lit ''choices'',
         JArr [JObj [(lit ''message'', JObj [(lit ''content'', JNum 5)])]])])) \<and>
   chat_handler RevA numeric_env
     \<lparr>message = JStr (lit ''hi''), history = scenario_A, model = JStr (lit ''groq-like-string'')\<rparr>
     = (Responded \<lparr>role = lit ''assistant'', content = JNum 5,
                   via = Some (lit ''Indresh (Turbo)'')\<rparr>,
        [GroqFetch (groq_request numeric_env scenario_A_messages)])"
  by (simp add: hint_or_none_def scenario_A_turns numeric_fetch chat_handler_def
      requestedType_string scenario_A_normalized try_block_def gemini_mode_examples
      groq_branch_def demo_keys scenario_A_groqMessages demo_persona numeric_content
      catch_handler_def)

section \<open>Hints that name no primary model (claim C8)\<close>

lemma is_turn_groq_turn: "is_turn msg \<Longrightarrow> \<exists>t. groq_turn msg = Inr t"
  by (cases msg) (simp_all add: is_turn_def groq_turn_def)

lemma map_all_groq_turns:
  "list_all is_turn xs \<Longrightarrow> \<exists>ts. map_all groq_turn xs = Inr ts"
proof (induction xs)
  case Nil
  then show ?case by simp
next
  case (Cons x xs)
  then obtain ts where ts: "map_all groq_turn xs = Inr ts" by auto
  from Cons.prems obtain t where "groq_turn x = Inr t" using is_turn_groq_turn [of x] by auto
  with ts show ?case by simp
qed

lemma groqMessages_returns:
  assumes "turns_or_none h" and "isArray h" and "history req = h"
  shows "\<exists>msgs. groqMessages e req = Inr msgs"
proof -
  from assms(2) obtain xs where xs: "h = JArr xs" by (cases h) (simp_all add: isArray_def)
  with assms(1) have "list_all is_turn xs" by (simp add: turns_or_none_def elements_def)
  then obtain ts where "map_all groq_turn xs = Inr ts" using map_all_groq_turns by blast
  with xs assms(3) show ?thesis by (simp add: groqMessages_def history_map_def)
qed

text \<open>
  Claim C8, as amended. For a model hint that is a non-empty string whose lowercased form
  contains none of gemini, flash and pro, and a history that is not an array or is an
  array of turns, the handler's answer is that of the secondary branch. It never calls
  the primary provider. When the secondary key is missing it answers with the
  configuration-error reply and calls nobody. When the key is set and the history is an
  array, it makes one call, a POST to the completions endpoint of the secondary provider
  with the key as bearer token, the secondary model and the message list built from the
  history.
\<close>

theorem other_hint_selects_secondary:
  assumes "model req = JStr s" and "s \<noteq> []"
    and "\<not> str_includes (toLowerCase e s) (lit ''gemini'')"
    and "\<not> str_includes (toLowerCase e s) (lit ''flash'')"
    and "\<not> str_includes (toLowerCase e s) (lit ''pro'')"
    and "turns_or_none (history req)"
  shows "chat_handler rv e req =
           (Responded (catch_handler e (fst (groq_branch e req))), snd (groq_branch e req)) \<and>
         (\<forall>g. GeminiChat g \<notin> set (snd (chat_handler rv e req))) \<and>
         (GROQ_KEY e = [] \<longrightarrow>
            chat_handler rv e req =
              (Responded \<lparr>role = lit ''assistant'',
                          content = JStr ([0x274C] @ lit '' Error: AI Key Missing''),
                          via = None\<rparr>,
               [])) \<and>
         (GROQ_KEY e \<noteq> [] \<longrightarrow> isArray (history req) \<longrightarrow>
            (\<exists>msgs. groqMessages e req = Inr msgs \<and>
               snd (chat_handler rv e req) =
                 [GroqFetch
                    \<lparr>q_url = lit ''https://api.groq.com/openai/v1/chat/completions'',
                     q_method = lit ''POST'',
                     q_content_type = lit ''application/json'',
                     q_authorization = lit ''Bearer '' @ GROQ_KEY e,
                     q_model = lit ''llama-3.1-8b-instant'',
                     q_messages = msgs,
                     q_temperature = 7 / 10,
                     q_max_tokens = 4096\<rparr>]))"
proof -
  from assms(6) obtain gh where gh: "sanitizeHistory (history req) = Inr gh"
    using sanitizeHistory_returns by blast
  have rt: "requestedType e (model req) = Inr (toLowerCase e s)"
    using assms(1,2) by (simp add: requestedType_string)
  have mode: "\<not> gemini_mode (toLowerCase e s)"
    using assms(3-5) by (simp add: gemini_mode_def)
  have h: "chat_handler rv e req =
           (Responded (catch_handler e (fst (groq_branch e req))), snd (groq_branch e req))"
    using mode by (simp add: chat_handler_reached [OF rt gh] try_block_def)
  obtain r calls where qb: "groq_branch e req = (r, calls)"
    by (cases "groq_branch e req")
  have none: "\<forall>g. GeminiChat g \<notin> set (snd (chat_handler rv e req))"
    using groq_branch_failures(5) [OF qb] by (simp add: h qb)
  have missing: "GROQ_KEY e = [] \<longrightarrow>
            chat_handler rv e req =
              (Responded \<lparr>role = lit ''assistant'',
                          content = JStr ([0x274C] @ lit '' Error: AI Key Missing''),
                          via = None\<rparr>,
               [])"
    using groq_branch_failures(1) [OF qb]
    by (simp add: h qb catch_handler_def key_missing_reply_def)
  have one: "GROQ_KEY e \<noteq> [] \<longrightarrow> isArray (history req) \<longrightarrow>
            (\<exists>msgs. groqMessages e req = Inr msgs \<and>
               snd (chat_handler rv e req) =
                 [GroqFetch
                    \<lparr>q_url = lit ''https://api.groq.com/openai/v1/chat/completions'',
                     q_method = lit ''POST'',
                     q_content_type = lit ''application/json'',
                     q_authorization = lit ''Bearer '' @ GROQ_KEY e,
                     q_model = lit ''llama-3.1-8b-instant'',
                     q_messages = msgs,
                     q_temperature = 7 / 10,
                     q_max_tokens = 4096\<rparr>])"
  proof (intro impI)
    assume key: "GROQ_KEY e \<noteq> []" and arr: "isArray (history req)"
    from assms(6) arr obtain msgs where msgs: "groqMessages e req = Inr msgs"
      using groqMessages_returns [of "history req" req e] by blast
    have "snd (groq_branch e req) = [GroqFetch (groq_request e msgs)]"
      using key msgs by (auto simp: groq_branch_def Let_def split: sum.splits)
    with msgs show "\<exists>msgs. groqMessages e req = Inr msgs \<and>
               snd (chat_handler rv e req) =
                 [GroqFetch
                    \<lparr>q_url = lit ''https://api.groq.com/openai/v1/chat/completions'',
                     q_method = lit ''POST'',
                     q_content_type = lit ''application/json'',
                     q_authorization = lit ''Bearer '' @ GROQ_KEY e,
                     q_model = lit ''llama-3.1-8b-instant'',
                     q_messages = msgs,
                     q_temperature = 7 / 10,
                     q_max_tokens = 4096\<rparr>]"
      by (simp add: h groq_request_def MODEL_GROQ_def)
  qed
  from h none missing one show ?thesis by blast
qed

text \<open>
  The amended C8 on scenario C, the hint groq-like-string, with the history of scenario A.
\<close>

theorem other_hint_selects_secondary_witness:
  "\<not> str_includes (toLowerCase demo_env (lit ''groq-like-string'')) (lit ''gemini'') \<and>
   \<not> str_includes (toLowerCase demo_env (lit ''groq-like-string'')) (lit ''flash'') \<and>
   \<not> str_includes (toLowerCase demo_env (lit ''groq-like-string'')) (lit ''pro'') \<and>
   turns_or_none scenario_A \<and> isArray scenario_A \<and> GROQ_KEY demo_env = lit ''key-2'' \<and>
   snd (chat_handler RevA demo_env
     \<lparr>message = JStr (lit ''hi''), history = scenario_A, model = JStr (lit ''groq-like-string'')\<rparr>)
     = [GroqFetch
          \<lparr>q_url = lit ''https://api.groq.com/openai/v1/chat/completions'',
           q_method = lit ''POST'',
           q_content_type = lit ''application/json'',
           q_authorization = lit ''Bearer '' @ lit ''key-2'',
           q_model = lit ''llama-3.1-8b-instant'',
           q_messages = scenario_A_messages,
           q_temperature = 7 / 10,
           q_max_tokens = 4096\<rparr>]"
proof -
  have arr: "isArray scenario_A" by (simp add: isArray_def scenario_A_def)
  have strs:
    "\<not> str_includes (toLowerCase demo_env (lit ''groq-like-string'')) (lit ''gemini'')"
    "\<not> str_includes (toLowerCase demo_env (lit ''groq-like-string'')) (lit ''flash'')"
    "\<not> str_includes (toLowerCase demo_env (lit ''groq-like-string'')) (lit ''pro'')"
    using gemini_mode_examples(3) by (simp_all add: gemini_mode_def)
  have key: "GROQ_KEY demo_env \<noteq> []" by (simp add: demo_keys)
  have msgs: "groqMessages demo_env
      \<lparr>message = JStr (lit ''hi''), history = scenario_A, model = JStr (lit ''groq-like-string'')\<rparr>
      = Inr scenario_A_messages"
    by (simp add: scenario_A_groqMessages demo_persona)
  from other_hint_selects_secondary
    [of "\<lparr>message = JStr (lit ''hi''), history = scenario_A, model = JStr (lit ''groq-like-string'')\<rparr>"
        "lit ''groq-like-string''" demo_env RevA]
    strs scenario_A_turns key arr msgs
  have "snd (chat_handler RevA demo_env
     \<lparr>message = JStr (lit ''hi''), history = scenario_A, model = JStr (lit ''groq-like-string'')\<rparr>)
     = [GroqFetch
          \<lparr>q_url = lit ''https://api.groq.com/openai/v1/chat/completions'',
           q_method = lit ''POST'',
           q_content_type = lit ''application/json'',
           q_authorization = lit ''Bearer '' @ GROQ_KEY demo_env,
           q_model = lit ''llama-3.1-8b-instant'',
           q_messages = scenario_A_messages,
           q_temperature = 7 / 10,
           q_max_tokens = 4096\<rparr>]"
    by auto
  with strs arr scenario_A_turns show ?thesis by (simp add: demo_keys)
qed

text \<open>
  Claim C8 as stated fails on the empty hint: its lowercased form contains none of the
  three words, but \<^verbatim>\<open>model || "gemini"\<close> replaces it by gemini and the primary provider
  is called.
\<close>

theorem empty_hint_counterexample:
  "\<not> str_includes (toLowerCase demo_env []) (lit ''gemini'') \<and>
   \<not> str_includes (toLowerCase demo_env []) (lit ''flash'') \<and>
   \<not> str_includes (toLowerCase demo_env []) (lit ''pro'') \<and>
   chat_handler RevA demo_env
     \<lparr>message = JStr (lit ''hi''), history = JUndefined, model = JStr []\<rparr>
     = (Responded \<lparr>role = lit ''assistant'', content = JStr (lit ''ok''),
                   via = Some (lit ''Indresh (gemini-2.5-pro)'')\<rparr>,
        [GeminiChat (gemini_request RevA demo_env (lit ''gemini'') [] (JStr (lit ''hi'')))])"
proof -
  have rt: "requestedType demo_env (JStr []) = Inr (lit ''gemini'')"
    by (simp add: requestedType_default)
  have t: "targetModelName RevA (lit ''gemini'') = lit ''gemini-2.5-pro''"
    by (simp add: str_includes_gemini)
  have "chat_handler RevA demo_env
     \<lparr>message = JStr (lit ''hi''), history = JUndefined, model = JStr []\<rparr>
     = (Responded \<lparr>role = lit ''assistant'', content = JStr (lit ''ok''),
                   via = Some (lit ''Indresh (gemini-2.5-pro)'')\<rparr>,
        [GeminiChat (gemini_request RevA demo_env (lit ''gemini'') [] (JStr (lit ''hi'')))])"
    by (simp add: chat_handler_def rt sanitizeHistory_def try_block_def gemini_mode_examples
        gemini_branch_outcomes demo_keys catch_handler_def t)
       (simp add: demo_env_def lit_def)
  then show ?thesis by (simp add: lit_def)
qed

end
